theory Spec2Isabelle
  imports Main "HOL-Library.AList"
begin

section \<open>Data model (src/types.ts)\<close>

text \<open>
  Numbers of the source are JavaScript numbers. Every point value that enters a game comes
  from \<^verbatim>\<open>parseInt(...) || 0\<close> or from adding or subtracting 1, and stage coordinates
  start at 0 and move by 1, so they are modelled as \<^typ>\<open>int\<close>. Identifiers are strings.
  Fields that only presentation reads (hosts, title, date, category configuration,
  feedback, team members) are left out of the records.
\<close>

definition SETS_PER_GAME :: int where "SETS_PER_GAME = 4"
definition CATEGORIES_PER_SET :: int where "CATEGORIES_PER_SET = 3"
definition QUESTIONS_PER_CATEGORY :: int where "QUESTIONS_PER_CATEGORY = 8"

datatype GameType = Regular | Special
datatype GameStatus = Upcoming | Live | Archived

text \<open>\<^verbatim>\<open>Team\<close>: fields \<^verbatim>\<open>id\<close> and \<^verbatim>\<open>name\<close>.\<close>

record Team =
  team_id :: string
  team_name :: string

text \<open>\<^verbatim>\<open>QuestionResult\<close>.\<close>

record QuestionResult =
  setId :: int
  categoryId :: int
  questionIndex :: int
  correctTeamIds :: "string list"
  points :: int

text \<open>\<^verbatim>\<open>ManualAdjustment\<close> (fields \<^verbatim>\<open>id\<close>, \<^verbatim>\<open>teamId\<close>, \<^verbatim>\<open>points\<close>, \<^verbatim>\<open>setId\<close>).\<close>

record ManualAdjustment =
  adjId :: string
  adjTeamId :: string
  adjPoints :: int
  adjSetId :: int

text \<open>\<^verbatim>\<open>Game.currentStage\<close> (fields \<^verbatim>\<open>set\<close>, \<^verbatim>\<open>category\<close>, \<^verbatim>\<open>question\<close>).\<close>

record Stage =
  stage_set :: int
  stage_category :: int
  stage_question :: int

text \<open>
  \<^verbatim>\<open>Game\<close>. The optional fields \<^verbatim>\<open>stickyPoints\<close>, \<^verbatim>\<open>manualAdjustments\<close> and
  \<^verbatim>\<open>countInRoyalty\<close> are options: \<open>None\<close> is \<^verbatim>\<open>undefined\<close>.
\<close>

record Game =
  game_id :: string
  seasonId :: string
  gameType :: GameType
  status :: GameStatus
  participatingTeamIds :: "string list"
  hasBonusRound :: bool
  stickyPoints :: "int option"
  currentStage :: Stage
  results :: "QuestionResult list"
  manualAdjustments :: "ManualAdjustment list option"
  countInRoyalty :: "bool option"

text \<open>\<^verbatim>\<open>RoyaltyStandings\<close> (field \<^verbatim>\<open>points\<close> is \<open>royaltyPoints\<close>).\<close>

record RoyaltyStandings =
  teamId :: string
  teamName :: string
  royaltyPoints :: int
  gamesPlayed :: int
  wins :: int

section \<open>JavaScript library functions\<close>

text \<open>\<^verbatim>\<open>Array.prototype.findIndex\<close>: the first index whose element satisfies the predicate, or -1.\<close>

fun findIndex :: "('a \<Rightarrow> bool) \<Rightarrow> 'a list \<Rightarrow> int" where
  "findIndex P [] = - 1"
| "findIndex P (x # xs) =
     (if P x then 0 else (let i = findIndex P xs in if i < 0 then - 1 else i + 1))"

text \<open>\<^verbatim>\<open>Array.prototype.indexOf\<close>.\<close>

definition indexOf :: "'a list \<Rightarrow> 'a \<Rightarrow> int" where
  "indexOf xs v = findIndex (\<lambda>y. y = v) xs"

text \<open>\<^verbatim>\<open>Array.from(new Set(xs))\<close>: a set keeps the first occurrence of each value, in order.\<close>

definition arrayFromSet :: "'a list \<Rightarrow> 'a list" where
  "arrayFromSet xs = foldl (\<lambda>acc x. if x \<in> set acc then acc else acc @ [x]) [] xs"

text \<open>
  \<^verbatim>\<open>xs.sort((a, b) => b - a)\<close> and its variants on a field: the sort is stable and
  descending, which is \<^const>\<open>sort_key\<close> on the negated value.
\<close>

definition sortDescBy :: "('a \<Rightarrow> int) \<Rightarrow> 'a list \<Rightarrow> 'a list" where
  "sortDescBy f xs = sort_key (\<lambda>x. - f x) xs"

text \<open>
  A \<^verbatim>\<open>Record<string, V>\<close> is an association list with distinct keys in insertion order:
  assigning to a present key replaces the value in place, assigning to an absent key
  appends (\<^const>\<open>AList.update\<close>); \<^verbatim>\<open>Object.values\<close> is \<open>map snd\<close> and
  \<^verbatim>\<open>Object.entries\<close> the list itself. Team identifiers are taken not to be
  canonical array indices (which an object enumerates first) nor names of members of
  \<^verbatim>\<open>Object.prototype\<close>.
\<close>

section \<open>Score aggregation (src/services/gameLogic.ts)\<close>

text \<open>\<^verbatim>\<open>if (scores[teamId] !== undefined) scores[teamId] += p\<close>.\<close>

definition addIfPresent :: "(string \<times> int) list \<Rightarrow> string \<Rightarrow> int \<Rightarrow> (string \<times> int) list" where
  "addIfPresent scores tId p =
     (case map_of scores tId of
        None \<Rightarrow> scores
      | Some v \<Rightarrow> AList.update tId (v + p) scores)"

definition calculateGameScores :: "Game \<Rightarrow> (string \<times> int) list" where
  "calculateGameScores game =
     (let scores0 = foldl (\<lambda>scores tId. AList.update tId 0 scores) [] (participatingTeamIds game);
          scores1 = foldl (\<lambda>scores res.
                       foldl (\<lambda>scores tId. addIfPresent scores tId (points res))
                         scores (correctTeamIds res))
                     scores0 (results game);
          scores2 = (case manualAdjustments game of
                       None \<Rightarrow> scores1
                     | Some adjs \<Rightarrow>
                         foldl (\<lambda>scores adj. addIfPresent scores (adjTeamId adj) (adjPoints adj))
                           scores1 adjs)
      in scores2)"

section \<open>Ranking\<close>

text \<open>\<^verbatim>\<open>Array.from(new Set(Object.values(scores))).sort((a,b) => b-a)\<close>.\<close>

definition uniqueScores :: "(string \<times> int) list \<Rightarrow> int list" where
  "uniqueScores scores = sortDescBy (\<lambda>v. v) (arrayFromSet (map snd scores))"

text \<open>
  \<^verbatim>\<open>uniqueScores.indexOf(score) + 1\<close>, the expression of both \<^verbatim>\<open>calculateSeasonStandings\<close>
  (\<^verbatim>\<open>teamRank\<close>) and \<^verbatim>\<open>getTeamHistory\<close> (\<^verbatim>\<open>rank\<close>).
\<close>

definition teamRank :: "(string \<times> int) list \<Rightarrow> int \<Rightarrow> int" where
  "teamRank scores score = indexOf (uniqueScores scores) score + 1"

text \<open>
  One entry of \<^verbatim>\<open>getTeamHistory\<close>: the game, \<^verbatim>\<open>scores[teamId] || 0\<close> and the rank of
  that score. The host name of the entry is presentation and is left out.
\<close>

definition historyEntry :: "string \<Rightarrow> Game \<Rightarrow> Game \<times> int \<times> int" where
  "historyEntry tId game =
     (let scores = calculateGameScores game;
          score = (case map_of scores tId of
                     None \<Rightarrow> 0
                   | Some v \<Rightarrow> if v = 0 then 0 else v);
          rank = teamRank scores score
      in (game, score, rank))"

text \<open>
  \<^verbatim>\<open>getTeamHistory\<close>, before its final sort by date (dates are strings parsed by
  \<^verbatim>\<open>Date\<close>, which is not modelled).
\<close>

definition getTeamHistory :: "string \<Rightarrow> Game list \<Rightarrow> (Game \<times> int \<times> int) list" where
  "getTeamHistory tId games =
     map (historyEntry tId)
       (filter (\<lambda>g. status g = Archived \<and> tId \<in> set (participatingTeamIds g)) games)"

section \<open>Season standings\<close>

text \<open>The filter of \<^verbatim>\<open>calculateSeasonStandings\<close>.\<close>

definition seasonGames :: "string \<Rightarrow> Game list \<Rightarrow> Game list" where
  "seasonGames sId games =
     filter (\<lambda>g. seasonId g = sId \<and> status g = Archived \<and>
                 (case countInRoyalty g of Some c \<Rightarrow> c | None \<Rightarrow> gameType g = Regular))
       games"

text \<open>\<^verbatim>\<open>teams.forEach(team => standingsMap[team.id] = {...})\<close>.\<close>

definition initStandings :: "Team list \<Rightarrow> (string \<times> RoyaltyStandings) list" where
  "initStandings teams =
     foldl (\<lambda>m team. AList.update (team_id team)
                \<lparr>teamId = team_id team, teamName = team_name team,
                 royaltyPoints = 0, gamesPlayed = 0, wins = 0\<rparr> m)
       [] teams"

text \<open>
  The body of \<^verbatim>\<open>sortedTeams.forEach(([teamId, score], index) => ...)\<close> after its guard:
  what one game adds to the standings entry of a team with that score.
\<close>

definition award :: "(string \<times> int) list \<Rightarrow> int \<Rightarrow> RoyaltyStandings \<Rightarrow> RoyaltyStandings" where
  "award scores score e =
     (let e1 = e\<lparr>gamesPlayed := gamesPlayed e + 1\<rparr>;
          e2 = e1\<lparr>royaltyPoints := royaltyPoints e1 + 1\<rparr>;
          rank = teamRank scores score
      in if rank = 1
         then e2\<lparr>royaltyPoints := royaltyPoints e2 + 10, wins := wins e2 + 1\<rparr>
         else if rank = 2 then e2\<lparr>royaltyPoints := royaltyPoints e2 + 5\<rparr>
         else if rank = 3 then e2\<lparr>royaltyPoints := royaltyPoints e2 + 3\<rparr>
         else e2)"

text \<open>
  The body with its guard \<^verbatim>\<open>if (!standingsMap[teamId]) return\<close>; the entry is an object
  of the map, so the additions are written under the same key.
\<close>

definition applyTeam ::
  "(string \<times> int) list \<Rightarrow> (string \<times> RoyaltyStandings) list \<Rightarrow> string \<times> int \<Rightarrow>
   (string \<times> RoyaltyStandings) list" where
  "applyTeam scores standingsMap entry =
     (case entry of (tId, score) \<Rightarrow>
        (case map_of standingsMap tId of
           None \<Rightarrow> standingsMap
         | Some e \<Rightarrow> AList.update tId (award scores score e) standingsMap))"

text \<open>The body of \<^verbatim>\<open>seasonGames.forEach(game => ...)\<close>.\<close>

definition applyGame ::
  "(string \<times> RoyaltyStandings) list \<Rightarrow> Game \<Rightarrow> (string \<times> RoyaltyStandings) list" where
  "applyGame standingsMap game =
     (let scores = calculateGameScores game;
          sortedTeams = sortDescBy snd scores
      in if length sortedTeams = 0 then standingsMap
         else foldl (applyTeam scores) standingsMap sortedTeams)"

definition calculateSeasonStandings :: "string \<Rightarrow> Game list \<Rightarrow> Team list \<Rightarrow> RoyaltyStandings list" where
  "calculateSeasonStandings sId games teams =
     (let standingsMap = foldl applyGame (initStandings teams) (seasonGames sId games)
      in sortDescBy royaltyPoints (map snd standingsMap))"

section \<open>Live game: stage counter and result ledger (LiveGame component)\<close>

text \<open>
  The handlers read the component state (\<^verbatim>\<open>currentSelection\<close>, \<^verbatim>\<open>manualPoints\<close>) and
  call \<^verbatim>\<open>onUpdateGame\<close> with a new game; they are functions from the game and that state
  to the game afterwards. A handler that returns without calling \<^verbatim>\<open>onUpdateGame\<close>
  leaves the game as it is.
\<close>

text \<open>\<^verbatim>\<open>manualPoints !== null ? manualPoints : (game.stickyPoints || 1)\<close>.\<close>

definition currentPoints :: "Game \<Rightarrow> int option \<Rightarrow> int" where
  "currentPoints game manualPoints =
     (case manualPoints of
        Some p \<Rightarrow> p
      | None \<Rightarrow> (case stickyPoints game of
                   None \<Rightarrow> 1
                 | Some s \<Rightarrow> if s = 0 then 1 else s))"

definition handlePrevious :: "Game \<Rightarrow> Game" where
  "handlePrevious game =
     (let st = currentStage game;
          nextQ0 = stage_question st - 1;
          (nextSet, nextCat, nextQ) =
            (if nextQ0 < 0
             then (let nextCat0 = stage_category st - 1
                   in if nextCat0 < 0
                      then (stage_set st - 1, CATEGORIES_PER_SET - 1, QUESTIONS_PER_CATEGORY - 1)
                      else (stage_set st, nextCat0, QUESTIONS_PER_CATEGORY - 1))
             else (stage_set st, stage_category st, nextQ0))
      in if nextSet < 0 then game
         else game\<lparr>currentStage :=
                \<lparr>stage_set = nextSet, stage_category = nextCat, stage_question = nextQ\<rparr>\<rparr>)"

text \<open>Step 2 of \<^verbatim>\<open>handleNext\<close>: replace the entry of the same coordinate or append.\<close>

definition upsert :: "QuestionResult list \<Rightarrow> QuestionResult \<Rightarrow> QuestionResult list" where
  "upsert rs result =
     (let existingIndex =
            findIndex (\<lambda>r. setId r = setId result \<and> categoryId r = categoryId result \<and>
                           questionIndex r = questionIndex result) rs
      in if existingIndex \<ge> 0 then rs[nat existingIndex := result] else rs @ [result])"

text \<open>The coordinate that step 2 compares: (\<^verbatim>\<open>setId\<close>, \<^verbatim>\<open>categoryId\<close>, \<^verbatim>\<open>questionIndex\<close>).\<close>

definition resultKey :: "QuestionResult \<Rightarrow> int \<times> int \<times> int" where
  "resultKey r = (setId r, categoryId r, questionIndex r)"

text \<open>
  \<^verbatim>\<open>handleNext\<close>: the updated game and \<^verbatim>\<open>isEndOfSet\<close> (which switches the view to the
  set summary).
\<close>

definition handleNext :: "Game \<Rightarrow> string list \<Rightarrow> int option \<Rightarrow> Game \<times> bool" where
  "handleNext game currentSelection manualPoints =
     (let st = currentStage game;
          result = \<lparr>setId = stage_set st, categoryId = stage_category st,
                    questionIndex = stage_question st,
                    correctTeamIds = currentSelection,
                    points = currentPoints game manualPoints\<rparr>;
          newResults = upsert (results game) result;
          nextQ0 = stage_question st + 1;
          (nextSet, nextCat, nextQ) =
            (if nextQ0 \<ge> QUESTIONS_PER_CATEGORY
             then (let nextCat0 = stage_category st + 1
                   in if nextCat0 \<ge> CATEGORIES_PER_SET
                      then (stage_set st + 1, 0, 0)
                      else (stage_set st, nextCat0, 0))
             else (stage_set st, stage_category st, nextQ0));
          isEndOfSet = (nextSet > stage_set st);
          updatedGame = game\<lparr>results := newResults,
                             stickyPoints := Some (currentPoints game manualPoints),
                             currentStage :=
                               \<lparr>stage_set = nextSet, stage_category = nextCat,
                                stage_question = nextQ\<rparr>\<rparr>
      in (updatedGame, isEndOfSet))"

text \<open>\<^verbatim>\<open>isGameOver\<close> of the component.\<close>

definition isGameOver :: "Game \<Rightarrow> bool" where
  "isGameOver game =
     (\<not> hasBonusRound game \<and> stage_set (currentStage game) \<ge> SETS_PER_GAME \<or>
      (hasBonusRound game \<and> stage_set (currentStage game) > SETS_PER_GAME))"

text \<open>The operator's presses of the two navigation buttons, in order.\<close>

datatype Press = Next "string list" "int option" | Previous

fun press :: "Game \<Rightarrow> Press \<Rightarrow> Game" where
  "press game (Next currentSelection manualPoints) = fst (handleNext game currentSelection manualPoints)"
| "press game Previous = handlePrevious game"

section \<open>Final summary table (LiveGame component, summary view)\<close>

text \<open>\<^verbatim>\<open>Array.from({length: SETS_PER_GAME + (game.hasBonusRound ? 1 : 0)}, (_, i) => i)\<close>.\<close>

definition setIndices :: "Game \<Rightarrow> int list" where
  "setIndices game = [0 .. SETS_PER_GAME + (if hasBonusRound game then 1 else 0) - 1]"

text \<open>The body of \<^verbatim>\<open>setIndices.forEach(setId => ...)\<close> for one team: the score of one set.\<close>

definition setScore :: "Game \<Rightarrow> string \<Rightarrow> int \<Rightarrow> int" where
  "setScore game tId sId =
     (let setResults = filter (\<lambda>r. setId r = sId) (results game);
          setScore0 = foldl (\<lambda>acc r. if tId \<in> set (correctTeamIds r) then acc + points r else acc)
                        0 setResults;
          adjPts = foldl (\<lambda>sum a. sum + adjPoints a) 0
                     (filter (\<lambda>a. adjSetId a = sId \<and> adjTeamId a = tId)
                        (case manualAdjustments game of None \<Rightarrow> [] | Some adjs \<Rightarrow> adjs))
      in setScore0 + adjPts)"

text \<open>One row of \<^verbatim>\<open>tableData\<close>: the per-set scores and their running total.\<close>

definition summaryRow :: "Game \<Rightarrow> string \<Rightarrow> int list \<times> int" where
  "summaryRow game tId =
     (let setScores = map (setScore game tId) (setIndices game);
          total = foldl (\<lambda>total s. total + s) 0 setScores
      in (setScores, total))"

text \<open>
  \<^verbatim>\<open>rankedTeams\<close>: the roster's participating teams by descending score
  (\<^verbatim>\<open>scores[t.id] || 0\<close>), and \<^verbatim>\<open>tableData\<close> over them.
\<close>

definition rankedTeams :: "Game \<Rightarrow> Team list \<Rightarrow> Team list" where
  "rankedTeams game teams =
     (let gameTeams = filter (\<lambda>t. team_id t \<in> set (participatingTeamIds game)) teams;
          scores = calculateGameScores game
      in sortDescBy (\<lambda>t. case map_of scores (team_id t) of
                            None \<Rightarrow> 0
                          | Some v \<Rightarrow> if v = 0 then 0 else v) gameTeams)"

definition tableData :: "Game \<Rightarrow> Team list \<Rightarrow> (Team \<times> int list \<times> int) list" where
  "tableData game teams = map (\<lambda>team. (team, summaryRow game (team_id team))) (rankedTeams game teams)"

section \<open>Concrete games\<close>

text \<open>A game as \<^verbatim>\<open>saveGame\<close> creates it, at stage (0,0,0) with an empty ledger.\<close>

definition newGame :: Game where
  "newGame =
     \<lparr>game_id = ''g1'', seasonId = ''s0'', gameType = Regular, status = Upcoming,
      participatingTeamIds = [], hasBonusRound = False, stickyPoints = None,
      currentStage = \<lparr>stage_set = 0, stage_category = 0, stage_question = 0\<rparr>,
      results = [], manualAdjustments = None, countInRoyalty = None\<rparr>"

definition atStage :: "int \<Rightarrow> int \<Rightarrow> int \<Rightarrow> Game \<Rightarrow> Game" where
  "atStage s c q game =
     game\<lparr>currentStage := \<lparr>stage_set = s, stage_category = c, stage_question = q\<rparr>\<rparr>"

text \<open>The score mapping {A:10, B:10, C:5, D:5, E:1} and an archived game that produces it.\<close>

definition exScores :: "(string \<times> int) list" where
  "exScores = [(''A'', 10), (''B'', 10), (''C'', 5), (''D'', 5), (''E'', 1)]"

definition rankGame :: Game where
  "rankGame =
     newGame\<lparr>status := Archived,
       participatingTeamIds := [''A'', ''B'', ''C'', ''D'', ''E''],
       results :=
         [\<lparr>setId = 0, categoryId = 0, questionIndex = 0,
           correctTeamIds = [''A'', ''B'', ''C'', ''D'', ''E''], points = 1\<rparr>,
          \<lparr>setId = 0, categoryId = 0, questionIndex = 1,
           correctTeamIds = [''A'', ''B'', ''C'', ''D''], points = 4\<rparr>,
          \<lparr>setId = 0, categoryId = 0, questionIndex = 2,
           correctTeamIds = [''A'', ''B''], points = 5\<rparr>]\<rparr>"

text \<open>
  A game with a bonus round, ledger entries in sets 0, 3 and the bonus set 4 (the first
  lists team A once and team B twice), and two manual adjustments; and the game that \<^verbatim>\<open>saveGame\<close> makes of it when the operator edits
  it with the bonus-round box unticked.
\<close>

definition bonusGame :: Game where
  "bonusGame =
     newGame\<lparr>status := Live,
       participatingTeamIds := [''A'', ''B''],
       hasBonusRound := True,
       results :=
         [\<lparr>setId = 0, categoryId = 0, questionIndex = 0,
           correctTeamIds = [''A'', ''B'', ''B''], points = 1\<rparr>,
          \<lparr>setId = 3, categoryId = 2, questionIndex = 7,
           correctTeamIds = [''B''], points = 2\<rparr>,
          \<lparr>setId = 4, categoryId = 0, questionIndex = 0,
           correctTeamIds = [''A''], points = 5\<rparr>],
       manualAdjustments :=
         Some [\<lparr>adjId = ''m1'', adjTeamId = ''A'', adjPoints = 2, adjSetId = 1\<rparr>,
               \<lparr>adjId = ''m2'', adjTeamId = ''B'', adjPoints = - 1, adjSetId = 4\<rparr>]\<rparr>"

definition bonusOffGame :: Game where
  "bonusOffGame = bonusGame\<lparr>hasBonusRound := False\<rparr>"

text \<open>A game value whose only ledger entry lists team A twice.\<close>

definition doubleCreditGame :: Game where
  "doubleCreditGame =
     newGame\<lparr>participatingTeamIds := [''A''],
       results :=
         [\<lparr>setId = 0, categoryId = 0, questionIndex = 0,
           correctTeamIds = [''A'', ''A''], points = 3\<rparr>]\<rparr>"

text \<open>
  A season with one archived Regular game whose ledger gives {A:50, B:50, C:30}, and a
  roster of A, B, C and a team D that did not play. The second game also credits a team X
  that is not in the roster.
\<close>

definition roster :: "Team list" where
  "roster =
     [\<lparr>team_id = ''A'', team_name = ''Alpha''\<rparr>, \<lparr>team_id = ''B'', team_name = ''Bravo''\<rparr>,
      \<lparr>team_id = ''C'', team_name = ''Charlie''\<rparr>, \<lparr>team_id = ''D'', team_name = ''Delta''\<rparr>]"

definition tieGame :: Game where
  "tieGame =
     newGame\<lparr>status := Archived,
       participatingTeamIds := [''A'', ''B'', ''C''],
       results :=
         [\<lparr>setId = 0, categoryId = 0, questionIndex = 0,
           correctTeamIds = [''A'', ''B'', ''C''], points = 30\<rparr>,
          \<lparr>setId = 0, categoryId = 0, questionIndex = 1,
           correctTeamIds = [''A'', ''B''], points = 20\<rparr>]\<rparr>"

definition guestGame :: Game where
  "guestGame =
     newGame\<lparr>game_id := ''g2'', status := Archived,
       participatingTeamIds := [''X'', ''A''],
       results :=
         [\<lparr>setId = 0, categoryId = 0, questionIndex = 0,
           correctTeamIds = [''X'', ''A''], points = 1\<rparr>,
          \<lparr>setId = 0, categoryId = 0, questionIndex = 1,
           correctTeamIds = [''X''], points = 1\<rparr>]\<rparr>"

text \<open>The second game with team X taken out of its participating teams.\<close>

definition soloGame :: Game where
  "soloGame = guestGame\<lparr>participatingTeamIds := [''A'']\<rparr>"

section \<open>Stage counter\<close>

text \<open>
  C6. \<^verbatim>\<open>handleNext\<close> increments the question; when the incremented question reaches
  \<open>QUESTIONS_PER_CATEGORY\<close> (8) it resets to 0 and the category increments; when the
  incremented category reaches \<open>CATEGORIES_PER_SET\<close> (3) it resets to 0 and the set
  increments. \<^verbatim>\<open>isEndOfSet\<close> is true exactly when the new set index is greater than the
  old one. From stage (0,2,7) the next stage is (1,0,0) and the signal is true.
\<close>

theorem C6_handleNext_advances_stage:
  "currentStage (fst (handleNext game sel mp)) =
     (let st = currentStage game in
      if stage_question st + 1 \<ge> QUESTIONS_PER_CATEGORY
      then (if stage_category st + 1 \<ge> CATEGORIES_PER_SET
            then \<lparr>stage_set = stage_set st + 1, stage_category = 0, stage_question = 0\<rparr>
            else \<lparr>stage_set = stage_set st, stage_category = stage_category st + 1,
                  stage_question = 0\<rparr>)
      else \<lparr>stage_set = stage_set st, stage_category = stage_category st,
            stage_question = stage_question st + 1\<rparr>)
   \<and> QUESTIONS_PER_CATEGORY = 8 \<and> CATEGORIES_PER_SET = 3
   \<and> (snd (handleNext game sel mp) \<longleftrightarrow>
        stage_set (currentStage (fst (handleNext game sel mp))) > stage_set (currentStage game))
   \<and> currentStage (fst (handleNext (atStage 0 2 7 game) sel mp)) =
        \<lparr>stage_set = 1, stage_category = 0, stage_question = 0\<rparr>
   \<and> snd (handleNext (atStage 0 2 7 game) sel mp)"
  by (simp add: handleNext_def atStage_def Let_def QUESTIONS_PER_CATEGORY_def CATEGORIES_PER_SET_def)

theorem C6_witness:
  "currentStage (fst (handleNext (atStage 0 1 7 newGame) [''A''] None)) =
     \<lparr>stage_set = 0, stage_category = 2, stage_question = 0\<rparr>
   \<and> \<not> snd (handleNext (atStage 0 1 7 newGame) [''A''] None)
   \<and> snd (handleNext (atStage 0 2 7 newGame) [''A''] None)"
  using C6_handleNext_advances_stage [of "atStage 0 1 7 newGame" "[''A'']" None]
        C6_handleNext_advances_stage [of "newGame" "[''A'']" None]
  unfolding QUESTIONS_PER_CATEGORY_def CATEGORIES_PER_SET_def
  by (simp add: atStage_def Let_def)

text \<open>
  C7. \<^verbatim>\<open>isGameOver\<close> holds exactly when the bonus round is disabled and the set index is
  at least \<open>SETS_PER_GAME\<close> (4), or the bonus round is enabled and the set index is greater
  than \<open>SETS_PER_GAME\<close>. Without a bonus round stage (4,0,0) is game-over; with a bonus
  round stage (4,0,0) is not and stage (5,0,0) is.
\<close>

theorem C7_isGameOver_boundary:
  "(isGameOver game \<longleftrightarrow>
      (\<not> hasBonusRound game \<and> stage_set (currentStage game) \<ge> SETS_PER_GAME) \<or>
      (hasBonusRound game \<and> stage_set (currentStage game) > SETS_PER_GAME))
   \<and> SETS_PER_GAME = 4
   \<and> isGameOver (atStage 4 0 0 (game\<lparr>hasBonusRound := False\<rparr>))
   \<and> \<not> isGameOver (atStage 4 0 0 (game\<lparr>hasBonusRound := True\<rparr>))
   \<and> isGameOver (atStage 5 0 0 (game\<lparr>hasBonusRound := True\<rparr>))"
  by (auto simp add: isGameOver_def atStage_def SETS_PER_GAME_def)

theorem C7_witness:
  "\<not> isGameOver (atStage 3 2 7 newGame)
   \<and> isGameOver (atStage 4 0 0 (newGame\<lparr>hasBonusRound := False\<rparr>))
   \<and> \<not> isGameOver (atStage 4 0 0 (newGame\<lparr>hasBonusRound := True\<rparr>))
   \<and> isGameOver (atStage 5 0 0 (newGame\<lparr>hasBonusRound := True\<rparr>))"
  using C7_isGameOver_boundary [of "atStage 3 2 7 newGame"] C7_isGameOver_boundary [of newGame]
  unfolding SETS_PER_GAME_def
  by (simp add: atStage_def newGame_def)

text \<open>
  C9. \<^verbatim>\<open>handlePrevious\<close> decrements the question with borrowing: a question below 0
  becomes 7 and the category decrements; a category below 0 becomes 2 and the set
  decrements. When the resulting set index is negative the game is returned unchanged;
  for a stage of non-negative coordinates that happens exactly at stage (0,0,0).
\<close>

theorem C9_handlePrevious_retreats_stage:
  "handlePrevious game =
     (let st = currentStage game in
      if stage_question st - 1 < 0
      then (if stage_category st - 1 < 0
            then (if stage_set st - 1 < 0 then game
                  else game\<lparr>currentStage :=
                         \<lparr>stage_set = stage_set st - 1, stage_category = 2, stage_question = 7\<rparr>\<rparr>)
            else (if stage_set st < 0 then game
                  else game\<lparr>currentStage :=
                         \<lparr>stage_set = stage_set st, stage_category = stage_category st - 1,
                          stage_question = 7\<rparr>\<rparr>))
      else (if stage_set st < 0 then game
            else game\<lparr>currentStage :=
                   \<lparr>stage_set = stage_set st, stage_category = stage_category st,
                    stage_question = stage_question st - 1\<rparr>\<rparr>))
   \<and> handlePrevious (atStage 0 0 0 game) = atStage 0 0 0 game
   \<and> (0 \<le> stage_set (currentStage game) \<and> 0 \<le> stage_category (currentStage game) \<and>
        0 \<le> stage_question (currentStage game) \<longrightarrow>
        (handlePrevious game = game \<longleftrightarrow>
           currentStage game = \<lparr>stage_set = 0, stage_category = 0, stage_question = 0\<rparr>))"
proof -
  obtain s c q where st: "currentStage game = \<lparr>stage_set = s, stage_category = c, stage_question = q\<rparr>"
    by (cases "currentStage game") auto
  have upd: "\<And>st'. (game\<lparr>currentStage := st'\<rparr> = game) = (st' = currentStage game)"
    by (cases game) auto
  show ?thesis
    unfolding handlePrevious_def atStage_def Let_def QUESTIONS_PER_CATEGORY_def CATEGORIES_PER_SET_def
    by (auto simp add: st upd)
qed

theorem C9_witness:
  "handlePrevious newGame = newGame
   \<and> handlePrevious (atStage 1 0 0 newGame) = atStage 0 2 7 newGame
   \<and> handlePrevious (atStage 1 2 0 newGame) = atStage 1 1 7 newGame
   \<and> handlePrevious (atStage 1 2 5 newGame) = atStage 1 2 4 newGame"
  using C9_handlePrevious_retreats_stage [of newGame]
        C9_handlePrevious_retreats_stage [of "atStage 1 0 0 newGame"]
        C9_handlePrevious_retreats_stage [of "atStage 1 2 0 newGame"]
        C9_handlePrevious_retreats_stage [of "atStage 1 2 5 newGame"]
  by (simp add: atStage_def newGame_def Let_def)

section \<open>Season eligibility\<close>

text \<open>
  C8. A game is processed by \<^verbatim>\<open>calculateSeasonStandings\<close> exactly when its season
  matches, its status is Archived, and its \<^verbatim>\<open>countInRoyalty\<close> flag holds when present, or
  its type is Regular when the flag is absent. An archived Regular game without the flag
  counts; an archived Special game without the flag does not.
\<close>

theorem C8_season_eligibility:
  "(g \<in> set (seasonGames sId games) \<longleftrightarrow>
      g \<in> set games \<and> seasonId g = sId \<and> status g = Archived \<and>
      (case countInRoyalty g of Some c \<Rightarrow> c | None \<Rightarrow> gameType g = Regular))
   \<and> calculateSeasonStandings sId games teams =
       calculateSeasonStandings sId (seasonGames sId games) teams
   \<and> seasonGames (seasonId g)
         [g\<lparr>status := Archived, gameType := Regular, countInRoyalty := None\<rparr>] =
       [g\<lparr>status := Archived, gameType := Regular, countInRoyalty := None\<rparr>]
   \<and> seasonGames (seasonId g)
         [g\<lparr>status := Archived, gameType := Special, countInRoyalty := None\<rparr>] = []"
  by (auto simp add: seasonGames_def calculateSeasonStandings_def split: option.splits)

theorem C8_witness:
  "seasonGames ''s0'' [newGame\<lparr>status := Archived\<rparr>] = [newGame\<lparr>status := Archived\<rparr>]
   \<and> seasonGames ''s0'' [newGame\<lparr>status := Archived, gameType := Special\<rparr>] = []
   \<and> seasonGames ''s0'' [newGame\<lparr>status := Archived, gameType := Special, countInRoyalty := Some True\<rparr>]
       = [newGame\<lparr>status := Archived, gameType := Special, countInRoyalty := Some True\<rparr>]
   \<and> seasonGames ''s0'' [newGame\<lparr>status := Archived, countInRoyalty := Some False\<rparr>] = []
   \<and> seasonGames ''s0'' [newGame] = []"
  using C8_season_eligibility [of newGame "''s0''" "[]" "[]"]
  by (simp add: seasonGames_def newGame_def)


section \<open>Library functions and score aggregation: auxiliary facts\<close>

lemma findIndex_range: "- 1 \<le> findIndex P xs \<and> findIndex P xs < int (length xs)"
  by (induction xs) (auto simp add: Let_def)

lemma findIndex_neg_iff: "findIndex P xs < 0 \<longleftrightarrow> (\<forall>x \<in> set xs. \<not> P x)"
  using findIndex_range [of P]
  by (induction xs) (auto simp add: Let_def)

lemma foldl_setins_set:
  "set (foldl (\<lambda>acc x. if x \<in> set acc then acc else acc @ [x]) acc xs) = set acc \<union> set xs"
  by (induction xs arbitrary: acc) auto

lemma foldl_setins_distinct:
  "distinct acc \<Longrightarrow> distinct (foldl (\<lambda>acc x. if x \<in> set acc then acc else acc @ [x]) acc xs)"
  by (induction xs arbitrary: acc) auto

lemma set_arrayFromSet: "set (arrayFromSet xs) = set xs"
  by (simp add: arrayFromSet_def foldl_setins_set)

lemma distinct_arrayFromSet: "distinct (arrayFromSet xs)"
  by (simp add: arrayFromSet_def foldl_setins_distinct)

lemma indexOf_desc:
  "sorted (map uminus (us::int list)) \<Longrightarrow> distinct us \<Longrightarrow> x \<in> set us \<Longrightarrow>
   indexOf us x = int (card {y \<in> set us. x < y})"
proof (induction us)
  case Nil
  then show ?case by simp
next
  case (Cons a us)
  have below: "\<forall>y \<in> set us. y < a"
  proof
    fix y assume y: "y \<in> set us"
    with Cons.prems(1) have "- a \<le> - y" by simp
    moreover from y Cons.prems(2) have "y \<noteq> a" by auto
    ultimately show "y < a" by simp
  qed
  show ?case
  proof (cases "x = a")
    case True
    have "{y \<in> set (a # us). a < y} = {}"
      using below by auto
    with True show ?thesis by (simp add: indexOf_def)
  next
    case False
    with Cons.prems have xin: "x \<in> set us" by simp
    have ih: "indexOf us x = int (card {y \<in> set us. x < y})"
      using Cons.IH Cons.prems xin by simp
    have nonneg: "\<not> findIndex (\<lambda>y. y = x) us < 0"
      using xin by (simp add: findIndex_neg_iff)
    have "{y \<in> set (a # us). x < y} = insert a {y \<in> set us. x < y}"
      using below xin by auto
    moreover have "a \<notin> {y \<in> set us. x < y}"
      using below by auto
    ultimately have "card {y \<in> set (a # us). x < y} = Suc (card {y \<in> set us. x < y})"
      by simp
    with ih nonneg False show ?thesis
      by (simp add: indexOf_def Let_def)
  qed
qed

lemma uniqueScores_props:
  "sorted (map uminus (uniqueScores scores)) \<and> distinct (uniqueScores scores) \<and>
   set (uniqueScores scores) = snd ` set scores"
proof -
  have "(\<lambda>x::int. - x) = uminus" by auto
  then show ?thesis 
  by (simp add: uniqueScores_def sortDescBy_def set_arrayFromSet distinct_arrayFromSet)
qed

lemma teamRank_dense:
  "s \<in> snd ` set scores \<Longrightarrow> teamRank scores s = 1 + int (card {v \<in> snd ` set scores. s < v})"
  using indexOf_desc [of "uniqueScores scores" s] uniqueScores_props [of scores]
  by (simp add: teamRank_def)

lemma map_of_addIfPresent:
  "map_of (addIfPresent sc k p) t =
     (if t = k then map_option (\<lambda>v. v + p) (map_of sc t) else map_of sc t)"
  by (auto simp add: addIfPresent_def update_conv' split: option.splits)

lemma keys_addIfPresent: "map fst (addIfPresent sc k p) = map fst sc"
proof (cases "map_of sc k")
  case None
  then show ?thesis by (simp add: addIfPresent_def)
next
  case (Some v)
  then have "k \<in> fst ` set sc" by (force dest: map_of_SomeD)
  with Some show ?thesis by (simp add: addIfPresent_def update_keys)
qed

lemma map_of_credit_teams:
  "map_of (foldl (\<lambda>sc k. addIfPresent sc k p) sc ks) t =
     map_option (\<lambda>v. v + p * int (count_list ks t)) (map_of sc t)"
proof (induction ks arbitrary: sc)
  case Nil
  then show ?case by (simp add: option.map_ident)
next
  case (Cons k ks)
  show ?case
    by (simp add: Cons.IH map_of_addIfPresent option.map_comp comp_def algebra_simps)
qed

lemma keys_credit_teams: "map fst (foldl (\<lambda>sc k. addIfPresent sc k p) sc ks) = map fst sc"
  by (induction ks arbitrary: sc) (simp_all add: keys_addIfPresent)

lemma map_of_credit_results:
  "map_of (foldl (\<lambda>sc res. foldl (\<lambda>sc k. addIfPresent sc k (points res)) sc (correctTeamIds res)) sc rs) t =
     map_option (\<lambda>v. v + (\<Sum>r\<leftarrow>rs. points r * int (count_list (correctTeamIds r) t))) (map_of sc t)"
proof (induction rs arbitrary: sc)
  case Nil
  then show ?case by (simp add: option.map_ident)
next
  case (Cons r rs)
  show ?case
    by (simp add: Cons.IH map_of_credit_teams option.map_comp comp_def algebra_simps)
qed

lemma keys_credit_results:
  "map fst (foldl (\<lambda>sc res. foldl (\<lambda>sc k. addIfPresent sc k (points res)) sc (correctTeamIds res)) sc rs) =
     map fst sc"
  by (induction rs arbitrary: sc) (simp_all add: keys_credit_teams)

lemma map_of_credit_adjustments:
  "map_of (foldl (\<lambda>sc a. addIfPresent sc (adjTeamId a) (adjPoints a)) sc adjs) t =
     map_option (\<lambda>v. v + (\<Sum>a\<leftarrow>filter (\<lambda>a. adjTeamId a = t) adjs. adjPoints a)) (map_of sc t)"
proof (induction adjs arbitrary: sc)
  case Nil
  then show ?case by (simp add: option.map_ident)
next
  case (Cons a adjs)
  show ?case
    by (simp add: Cons.IH map_of_addIfPresent option.map_comp comp_def algebra_simps)
qed

lemma keys_credit_adjustments:
  "map fst (foldl (\<lambda>sc a. addIfPresent sc (adjTeamId a) (adjPoints a)) sc adjs) = map fst sc"
  by (induction adjs arbitrary: sc) (simp_all add: keys_addIfPresent)

lemma map_of_init_scores:
  "map_of (foldl (\<lambda>sc k. AList.update k (0::int) sc) sc ks) t =
     (if t \<in> set ks then Some 0 else map_of sc t)"
  by (induction ks arbitrary: sc) (auto simp add: update_conv')

lemma distinct_init_scores:
  "distinct (map fst sc) \<Longrightarrow> distinct (map fst (foldl (\<lambda>sc k. AList.update k (0::int) sc) sc ks))"
  by (induction ks arbitrary: sc) (simp_all add: distinct_update)

lemma map_of_calculateGameScores:
  "map_of (calculateGameScores game) t =
     (if t \<in> set (participatingTeamIds game)
      then Some ((\<Sum>r\<leftarrow>results game. points r * int (count_list (correctTeamIds r) t)) +
                 (\<Sum>a\<leftarrow>filter (\<lambda>a. adjTeamId a = t)
                        (case manualAdjustments game of None \<Rightarrow> [] | Some adjs \<Rightarrow> adjs).
                    adjPoints a))
      else None)"
  by (simp add: calculateGameScores_def Let_def
        map_of_credit_adjustments map_of_credit_results map_of_init_scores
      split: option.splits)

lemma distinct_calculateGameScores: "distinct (map fst (calculateGameScores game))"
  by (simp add: calculateGameScores_def Let_def keys_credit_adjustments keys_credit_results
        distinct_init_scores split: option.splits)

section \<open>Dense ranking\<close>

text \<open>
  C1. For every score mapping and every team in it, the rank computed by
  \<^verbatim>\<open>calculateSeasonStandings\<close> for an entry of the mapping is 1 plus the number of distinct
  score values strictly greater than the team's score; for every participating team of a
  game, the entry that \<^verbatim>\<open>getTeamHistory\<close> makes for the game (it makes one for each
  archived game the team participated in) carries the team's score and the same rank over
  the game's score mapping. For {A:10, B:10, C:5, D:5, E:1} the ranks are 1, 1, 2, 2, 3 in
  both computations.
\<close>

theorem C1_dense_rank:
  "((t, s) \<in> set scores \<longrightarrow>
      teamRank scores s = 1 + int (card {v \<in> snd ` set scores. s < v}))
   \<and> (t' \<in> set (participatingTeamIds game) \<longrightarrow>
        (\<exists>s'. map_of (calculateGameScores game) t' = Some s' \<and>
              historyEntry t' game =
                (game, s', 1 + int (card {v \<in> snd ` set (calculateGameScores game). s' < v}))))
   \<and> (g \<in> set games \<and> status g = Archived \<and> t' \<in> set (participatingTeamIds g) \<longrightarrow>
        historyEntry t' g \<in> set (getTeamHistory t' games))
   \<and> map (\<lambda>(t, s). (t, teamRank exScores s)) exScores =
        [(''A'', 1), (''B'', 1), (''C'', 2), (''D'', 2), (''E'', 3)]
   \<and> calculateGameScores rankGame = exScores
   \<and> map (\<lambda>t. snd (snd (historyEntry t rankGame))) [''A'', ''B'', ''C'', ''D'', ''E''] =
        [1, 1, 2, 2, 3]"
proof (intro conjI impI)
  assume "(t, s) \<in> set scores"
  then have "s \<in> snd ` set scores" by force
  then show "teamRank scores s = 1 + int (card {v \<in> snd ` set scores. s < v})"
    by (rule teamRank_dense)
next
  assume "t' \<in> set (participatingTeamIds game)"
  then obtain s' where s': "map_of (calculateGameScores game) t' = Some s'"
    by (simp add: map_of_calculateGameScores)
  then have "s' \<in> snd ` set (calculateGameScores game)"
    by (force dest: map_of_SomeD)
  then have "teamRank (calculateGameScores game) s' =
      1 + int (card {v \<in> snd ` set (calculateGameScores game). s' < v})"
    by (rule teamRank_dense)
  with s' have "historyEntry t' game =
      (game, s', 1 + int (card {v \<in> snd ` set (calculateGameScores game). s' < v}))"
    by (simp add: historyEntry_def Let_def)
  with s' show "\<exists>s'. map_of (calculateGameScores game) t' = Some s' \<and>
      historyEntry t' game =
        (game, s', 1 + int (card {v \<in> snd ` set (calculateGameScores game). s' < v}))"
    by blast
next
  assume "g \<in> set games \<and> status g = Archived \<and> t' \<in> set (participatingTeamIds g)"
  then show "historyEntry t' g \<in> set (getTeamHistory t' games)"
    by (simp add: getTeamHistory_def)
next
  show "map (\<lambda>(t, s). (t, teamRank exScores s)) exScores =
      [(''A'', 1), (''B'', 1), (''C'', 2), (''D'', 2), (''E'', 3)]"
    by code_simp
next
  show "calculateGameScores rankGame = exScores"
    by code_simp
next
  show "map (\<lambda>t. snd (snd (historyEntry t rankGame))) [''A'', ''B'', ''C'', ''D'', ''E''] =
      [1, 1, 2, 2, 3]"
    by code_simp
qed

theorem C1_witness:
  "(''C'', 5) \<in> set exScores
   \<and> teamRank exScores 5 = 1 + int (card {v \<in> snd ` set exScores. 5 < v})
   \<and> ''C'' \<in> set (participatingTeamIds rankGame)
   \<and> (\<exists>s'. map_of (calculateGameScores rankGame) ''C'' = Some s' \<and>
         historyEntry ''C'' rankGame =
           (rankGame, s', 1 + int (card {v \<in> snd ` set (calculateGameScores rankGame). s' < v})))"
proof -
  have h1: "(''C'', 5) \<in> set exScores"
    by (simp add: exScores_def)
  have h2: "''C'' \<in> set (participatingTeamIds rankGame)"
    by (simp add: rankGame_def)
  from C1_dense_rank [of "''C''" 5 exScores "''C''" rankGame rankGame "[rankGame]"] h1 h2 show ?thesis
    by blast
qed


section \<open>Result ledger\<close>

lemma findIndex_first:
  "0 \<le> findIndex P xs \<Longrightarrow>
     nat (findIndex P xs) < length xs \<and> P (xs ! nat (findIndex P xs)) \<and>
     (\<forall>j < nat (findIndex P xs). \<not> P (xs ! j))"
proof (induction xs)
  case Nil
  then show ?case by simp
next
  case (Cons x xs)
  show ?case
  proof (cases "P x")
    case True
    then show ?thesis by simp
  next
    case False
    with Cons.prems have nn: "0 \<le> findIndex P xs"
      by (simp add: Let_def split: if_splits)
    then have eq: "findIndex P (x # xs) = findIndex P xs + 1"
      using False by (simp add: Let_def)
    have n: "nat (findIndex P xs + 1) = Suc (nat (findIndex P xs))"
      using nn by simp
    from Cons.IH [OF nn] False show ?thesis
      unfolding eq n by (auto simp add: less_Suc_eq_0_disj)
  qed
qed

lemma upsert_found:
  assumes "resultKey r \<in> set (map resultKey rs)"
  shows "\<exists>i < length rs. resultKey (rs ! i) = resultKey r \<and>
           (\<forall>j < i. resultKey (rs ! j) \<noteq> resultKey r) \<and> upsert rs r = rs[i := r]"
proof -
  let ?P = "\<lambda>x. setId x = setId r \<and> categoryId x = categoryId r \<and> questionIndex x = questionIndex r"
  have P: "\<And>x. ?P x \<longleftrightarrow> resultKey x = resultKey r"
    by (auto simp add: resultKey_def)
  from assms have "\<not> findIndex ?P rs < 0"
    by (auto simp add: findIndex_neg_iff P)
  then have nn: "0 \<le> findIndex ?P rs" by simp
  from findIndex_first [OF nn] nn show ?thesis
    unfolding P [symmetric] upsert_def Let_def by (intro exI [of _ "nat (findIndex ?P rs)"]) simp
qed

lemma upsert_new:
  assumes "resultKey r \<notin> set (map resultKey rs)"
  shows "upsert rs r = rs @ [r]"
proof -
  let ?P = "\<lambda>x. setId x = setId r \<and> categoryId x = categoryId r \<and> questionIndex x = questionIndex r"
  have P: "\<And>x. ?P x \<longleftrightarrow> resultKey x = resultKey r"
    by (auto simp add: resultKey_def)
  from assms have "findIndex ?P rs < 0"
    unfolding findIndex_neg_iff P by (metis image_eqI set_map)
  then show ?thesis by (simp add: upsert_def Let_def)
qed

lemma upsert_keys:
  "map resultKey (upsert rs r) =
     (if resultKey r \<in> set (map resultKey rs) then map resultKey rs else map resultKey rs @ [resultKey r])"
proof (cases "resultKey r \<in> set (map resultKey rs)")
  case True
  from upsert_found [OF True] obtain i where
    i: "i < length rs" "resultKey (rs ! i) = resultKey r" "upsert rs r = rs[i := r]"
    by blast
  then have "map resultKey (upsert rs r) = (map resultKey rs)[i := resultKey (rs ! i)]"
    by (simp add: map_update)
  also have "\<dots> = map resultKey rs"
    using i(1) by (simp add: list_update_same_conv)
  finally show ?thesis using True by simp
next
  case False
  then show ?thesis by (simp add: upsert_new)
qed

lemma upsert_distinct:
  "distinct (map resultKey rs) \<Longrightarrow> distinct (map resultKey (upsert rs r))"
  by (simp add: upsert_keys)

lemma handleNext_results:
  "results (fst (handleNext game sel mp)) =
     upsert (results game)
       \<lparr>setId = stage_set (currentStage game), categoryId = stage_category (currentStage game),
        questionIndex = stage_question (currentStage game), correctTeamIds = sel,
        points = currentPoints game mp\<rparr>"
  by (simp add: handleNext_def Let_def split: prod.splits)

lemma handlePrevious_results: "results (handlePrevious game) = results game"
  by (simp add: handlePrevious_def Let_def split: prod.splits)

lemma press_distinct:
  "distinct (map resultKey (results game)) \<Longrightarrow> distinct (map resultKey (results (press game p)))"
  by (cases p) (simp_all add: handleNext_results handlePrevious_results upsert_distinct)

lemma presses_distinct:
  "distinct (map resultKey (results game)) \<Longrightarrow>
   distinct (map resultKey (results (foldl press game ps)))"
  by (induction ps arbitrary: game) (simp_all add: press_distinct)

lemma upserts_distinct:
  "distinct (map resultKey rs) \<Longrightarrow> distinct (map resultKey (foldl upsert rs new))"
  by (induction new arbitrary: rs) (simp_all add: upsert_distinct)

text \<open>
  C4. \<^verbatim>\<open>handleNext\<close> writes the ledger by \<open>upsert\<close>. After any sequence of presses of
  Next and Previous the ledger has at most one entry per (set, category, question)
  coordinate, provided it had at the start (a new game's ledger is empty); the same holds
  for any sequence of upserts. Recording a coordinate that has an entry replaces the first
  (only) such entry at its index by the new result; recording a new coordinate appends the
  result at the end.
\<close>

theorem C4_ledger_upsert:
  "results (fst (handleNext game sel mp)) =
     upsert (results game)
       \<lparr>setId = stage_set (currentStage game), categoryId = stage_category (currentStage game),
        questionIndex = stage_question (currentStage game), correctTeamIds = sel,
        points = currentPoints game mp\<rparr>
   \<and> (distinct (map resultKey (results game)) \<longrightarrow>
        distinct (map resultKey (results (foldl press game ps))))
   \<and> distinct (map resultKey (results (foldl press newGame ps)))
   \<and> (distinct (map resultKey rs) \<longrightarrow> distinct (map resultKey (foldl upsert rs new)))
   \<and> (resultKey r \<in> set (map resultKey rs) \<longrightarrow>
        (\<exists>i < length rs. resultKey (rs ! i) = resultKey r \<and>
           (\<forall>j < i. resultKey (rs ! j) \<noteq> resultKey r) \<and> upsert rs r = rs[i := r]))
   \<and> (resultKey r \<notin> set (map resultKey rs) \<longrightarrow> upsert rs r = rs @ [r])"
proof (intro conjI impI)
  show "distinct (map resultKey (results (foldl press newGame ps)))"
    by (rule presses_distinct) (simp add: newGame_def)
next
  assume "resultKey r \<in> set (map resultKey rs)"
  then show "\<exists>i < length rs. resultKey (rs ! i) = resultKey r \<and>
      (\<forall>j < i. resultKey (rs ! j) \<noteq> resultKey r) \<and> upsert rs r = rs[i := r]"
    by (rule upsert_found)
next
  assume "resultKey r \<notin> set (map resultKey rs)"
  then show "upsert rs r = rs @ [r]"
    by (rule upsert_new)
next
  assume "distinct (map resultKey (results game))"
  then show "distinct (map resultKey (results (foldl press game ps)))"
    by (rule presses_distinct)
next
  assume "distinct (map resultKey rs)"
  then show "distinct (map resultKey (foldl upsert rs new))"
    by (rule upserts_distinct)
next
  show "results (fst (handleNext game sel mp)) =
     upsert (results game)
       \<lparr>setId = stage_set (currentStage game), categoryId = stage_category (currentStage game),
        questionIndex = stage_question (currentStage game), correctTeamIds = sel,
        points = currentPoints game mp\<rparr>"
    by (rule handleNext_results)
qed

theorem C4_witness:
  "distinct (map resultKey (results newGame))
   \<and> distinct (map resultKey
         (results (foldl press newGame [Next [''A''] None, Previous, Next [''B''] (Some 3)])))
   \<and> results (foldl press newGame [Next [''A''] None, Previous, Next [''B''] (Some 3)]) =
        [\<lparr>setId = 0, categoryId = 0, questionIndex = 0, correctTeamIds = [''B''], points = 3\<rparr>]
   \<and> results (foldl press newGame [Next [''A''] None, Next [''B''] (Some 3)]) =
        [\<lparr>setId = 0, categoryId = 0, questionIndex = 0, correctTeamIds = [''A''], points = 1\<rparr>,
         \<lparr>setId = 0, categoryId = 0, questionIndex = 1, correctTeamIds = [''B''], points = 3\<rparr>]"
proof -
  have h: "distinct (map resultKey (results newGame))"
    by (simp add: newGame_def)
  have d: "distinct (map resultKey
         (results (foldl press newGame [Next [''A''] None, Previous, Next [''B''] (Some 3)])))"
    using C4_ledger_upsert [of newGame "[]" None "[Next [''A''] None, Previous, Next [''B''] (Some 3)]"] h
    by blast
  have e1: "results (foldl press newGame [Next [''A''] None, Previous, Next [''B''] (Some 3)]) =
        [\<lparr>setId = 0, categoryId = 0, questionIndex = 0, correctTeamIds = [''B''], points = 3\<rparr>]"
    by code_simp
  have e2: "results (foldl press newGame [Next [''A''] None, Next [''B''] (Some 3)]) =
        [\<lparr>setId = 0, categoryId = 0, questionIndex = 0, correctTeamIds = [''A''], points = 1\<rparr>,
         \<lparr>setId = 0, categoryId = 0, questionIndex = 1, correctTeamIds = [''B''], points = 3\<rparr>]"
    by code_simp
  from h d e1 e2 show ?thesis by blast
qed

section \<open>Point resolution\<close>

text \<open>
  C5, as the code has it. The point value of the current question is the value in
  \<^verbatim>\<open>manualPoints\<close> when there is one; otherwise the game's \<^verbatim>\<open>stickyPoints\<close> when it is
  present and not 0; otherwise 1. \<^verbatim>\<open>handleNext\<close> records the entry with that value and
  overwrites \<^verbatim>\<open>stickyPoints\<close> with exactly that value, so that the default of the next
  question is that value when it is not 0, and 1 when it is 0.
\<close>

theorem C5_point_resolution:
  "currentPoints game mp =
     (case mp of
        Some p \<Rightarrow> p
      | None \<Rightarrow> (case stickyPoints game of
                   Some s \<Rightarrow> if s \<noteq> 0 then s else 1
                 | None \<Rightarrow> 1))
   \<and> stickyPoints (fst (handleNext game sel mp)) = Some (currentPoints game mp)
   \<and> \<lparr>setId = stage_set (currentStage game), categoryId = stage_category (currentStage game),
       questionIndex = stage_question (currentStage game), correctTeamIds = sel,
       points = currentPoints game mp\<rparr> \<in> set (results (fst (handleNext game sel mp)))
   \<and> currentPoints (fst (handleNext game sel mp)) None =
        (if currentPoints game mp \<noteq> 0 then currentPoints game mp else 1)"
proof -
  let ?r = "\<lparr>setId = stage_set (currentStage game), categoryId = stage_category (currentStage game),
       questionIndex = stage_question (currentStage game), correctTeamIds = sel,
       points = currentPoints game mp\<rparr>"
  have "?r \<in> set (upsert (results game) ?r)"
  proof (cases "resultKey ?r \<in> set (map resultKey (results game))")
    case True
    from upsert_found [OF True] show ?thesis
      by (auto intro: set_update_memI)
  next
    case False
    then show ?thesis by (simp add: upsert_new)
  qed
  then have "?r \<in> set (results (fst (handleNext game sel mp)))"
    by (simp only: handleNext_results)
  moreover have "currentPoints game mp =
     (case mp of
        Some p \<Rightarrow> p
      | None \<Rightarrow> (case stickyPoints game of
                   Some s \<Rightarrow> if s \<noteq> 0 then s else 1
                 | None \<Rightarrow> 1))"
    by (simp add: currentPoints_def split: option.splits)
  moreover have "stickyPoints (fst (handleNext game sel mp)) = Some (currentPoints game mp)"
    by (simp add: handleNext_def Let_def split: prod.splits)
  moreover from this have "currentPoints (fst (handleNext game sel mp)) None =
        (if currentPoints game mp \<noteq> 0 then currentPoints game mp else 1)"
    by (simp add: currentPoints_def)
  ultimately show ?thesis by blast
qed

theorem C5_witness:
  "currentPoints newGame None = 1
   \<and> currentPoints (newGame\<lparr>stickyPoints := Some 3\<rparr>) None = 3
   \<and> currentPoints (newGame\<lparr>stickyPoints := Some 3\<rparr>) (Some 2) = 2
   \<and> stickyPoints (fst (handleNext newGame [''A''] (Some 2))) = Some 2
   \<and> currentPoints (fst (handleNext newGame [''A''] (Some 2))) None = 2"
  using C5_point_resolution [of newGame None "[''A'']"]
        C5_point_resolution [of "newGame\<lparr>stickyPoints := Some 3\<rparr>" None "[''A'']"]
        C5_point_resolution [of "newGame\<lparr>stickyPoints := Some 3\<rparr>" "Some 2" "[''A'']"]
        C5_point_resolution [of newGame "Some 2" "[''A'']"]
  by (simp add: newGame_def)

text \<open>
  C5 without the exception for 0 fails when the value just used is 0: the operator
  records the first question of a new game with 0 points, \<^verbatim>\<open>stickyPoints\<close> becomes 0, and
  the default of the next question is 1, not 0.
\<close>

theorem C5_counterexample:
  "stickyPoints (fst (handleNext newGame [] (Some 0))) = Some 0
   \<and> currentPoints (fst (handleNext newGame [] (Some 0))) None \<noteq> 0"
  by (simp add: handleNext_def Let_def currentPoints_def split: prod.splits)


section \<open>Additivity of the summary table\<close>

lemma foldl_cond_add:
  "foldl (\<lambda>acc r. if P r then acc + f r else acc) (a::int) rs = a + sum_list (map f (filter P rs))"
  by (induction rs arbitrary: a) simp_all

lemma foldl_add_map:
  "foldl (\<lambda>acc x. acc + f x) (a::int) xs = a + sum_list (map f xs)"
  by (induction xs arbitrary: a) simp_all

lemma setScore_sum:
  "setScore game t sId =
     (\<Sum>r\<leftarrow>filter (\<lambda>r. setId r = sId \<and> t \<in> set (correctTeamIds r)) (results game). points r) +
     (\<Sum>a\<leftarrow>filter (\<lambda>a. adjSetId a = sId \<and> adjTeamId a = t)
            (case manualAdjustments game of None \<Rightarrow> [] | Some adjs \<Rightarrow> adjs). adjPoints a)"
  by (simp add: setScore_def Let_def foldl_cond_add foldl_add_map conj_commute)

lemma summaryRow_total:
  "snd (summaryRow game t) = (\<Sum>sId\<leftarrow>setIndices game. setScore game t sId)"
  using foldl_add_map [of "\<lambda>s. s" 0 "map (setScore game t) (setIndices game)"]
  by (simp add: summaryRow_def Let_def)

lemma sum_list_delta:
  "distinct I \<Longrightarrow> (\<Sum>i\<leftarrow>I. if k = i then (c::int) else 0) = (if k \<in> set I then c else 0)"
  by (induction I) auto

lemma sum_by_index:
  "distinct I \<Longrightarrow>
     (\<Sum>i\<leftarrow>I. \<Sum>x\<leftarrow>filter (\<lambda>x. k x = i \<and> P x) xs. (f x :: int)) =
     (\<Sum>x\<leftarrow>filter (\<lambda>x. k x \<in> set I \<and> P x) xs. f x)"
proof (induction xs)
  case Nil
  then show ?case by simp
next
  case (Cons x xs)
  have "(\<Sum>i\<leftarrow>I. \<Sum>y\<leftarrow>filter (\<lambda>y. k y = i \<and> P y) (x # xs). f y) =
        (\<Sum>i\<leftarrow>I. (if k x = i then (if P x then f x else 0) else 0) +
                  (\<Sum>y\<leftarrow>filter (\<lambda>y. k y = i \<and> P y) xs. f y))"
    by (rule arg_cong [where f = sum_list]) (rule map_cong, simp_all)
  also have "\<dots> = (\<Sum>i\<leftarrow>I. if k x = i then (if P x then f x else 0) else 0) +
                  (\<Sum>i\<leftarrow>I. \<Sum>y\<leftarrow>filter (\<lambda>y. k y = i \<and> P y) xs. f y)"
    by (simp add: sum_list_addf)
  also have "\<dots> = (if k x \<in> set I then (if P x then f x else 0) else 0) +
                  (\<Sum>y\<leftarrow>filter (\<lambda>y. k y \<in> set I \<and> P y) xs. f y)"
    using Cons by (simp add: sum_list_delta)
  also have "\<dots> = (\<Sum>y\<leftarrow>filter (\<lambda>y. k y \<in> set I \<and> P y) (x # xs). f y)"
    by simp
  finally show ?case .
qed

lemma count_list_once:
  "count_list xs t \<le> 1 \<Longrightarrow> count_list xs t = (if t \<in> set xs then 1 else 0)"
  using count_list_0_iff [of xs t] by (cases "t \<in> set xs") auto

lemma set_setIndices:
  "set (setIndices game) = {s. 0 \<le> s \<and> s < SETS_PER_GAME + (if hasBonusRound game then 1 else 0)}"
  by (auto simp add: setIndices_def)

lemma distinct_setIndices: "distinct (setIndices game)"
  by (simp add: setIndices_def)

text \<open>
  C2, as the code has it. For a participating team, the total of \<^verbatim>\<open>calculateGameScores\<close>
  equals the total of the team's row of the summary table (the sum of its per-set scores
  over the displayed sets, \<open>SETS_PER_GAME\<close> sets plus the bonus set when
  \<^verbatim>\<open>hasBonusRound\<close> is true), provided every ledger entry that credits the team lists
  that team once (other teams may be listed any number of times) and has its set index
  among the displayed sets, and every manual adjustment of the team has its set index among
  the displayed sets.
\<close>

theorem C2_additivity:
  assumes part: "t \<in> set (participatingTeamIds game)"
    and led: "\<forall>r \<in> set (results game). t \<in> set (correctTeamIds r) \<longrightarrow>
               count_list (correctTeamIds r) t \<le> 1 \<and>
               0 \<le> setId r \<and> setId r < SETS_PER_GAME + (if hasBonusRound game then 1 else 0)"
    and adj: "\<forall>a \<in> set (case manualAdjustments game of None \<Rightarrow> [] | Some adjs \<Rightarrow> adjs).
               adjTeamId a = t \<longrightarrow>
               0 \<le> adjSetId a \<and> adjSetId a < SETS_PER_GAME + (if hasBonusRound game then 1 else 0)"
  shows "map_of (calculateGameScores game) t = Some (snd (summaryRow game t))
         \<and> snd (summaryRow game t) = (\<Sum>sId\<leftarrow>setIndices game. setScore game t sId)"
proof -
  let ?adjs = "case manualAdjustments game of None \<Rightarrow> [] | Some adjs \<Rightarrow> adjs"
  let ?I = "setIndices game"
  have "(\<Sum>sId\<leftarrow>?I. setScore game t sId) =
        (\<Sum>sId\<leftarrow>?I. \<Sum>r\<leftarrow>filter (\<lambda>r. setId r = sId \<and> t \<in> set (correctTeamIds r)) (results game). points r) +
        (\<Sum>sId\<leftarrow>?I. \<Sum>a\<leftarrow>filter (\<lambda>a. adjSetId a = sId \<and> adjTeamId a = t) ?adjs. adjPoints a)"
    by (simp only: setScore_sum sum_list_addf)
  also have "\<dots> =
        (\<Sum>r\<leftarrow>filter (\<lambda>r. setId r \<in> set ?I \<and> t \<in> set (correctTeamIds r)) (results game). points r) +
        (\<Sum>a\<leftarrow>filter (\<lambda>a. adjSetId a \<in> set ?I \<and> adjTeamId a = t) ?adjs. adjPoints a)"
    by (simp only: sum_by_index [OF distinct_setIndices])
  also have "filter (\<lambda>r. setId r \<in> set ?I \<and> t \<in> set (correctTeamIds r)) (results game) =
             filter (\<lambda>r. t \<in> set (correctTeamIds r)) (results game)"
    using led by (intro filter_cong) (auto simp add: set_setIndices)
  also have "filter (\<lambda>a. adjSetId a \<in> set ?I \<and> adjTeamId a = t) ?adjs =
             filter (\<lambda>a. adjTeamId a = t) ?adjs"
    using adj by (intro filter_cong) (auto simp add: set_setIndices)
  also have "(\<Sum>r\<leftarrow>filter (\<lambda>r. t \<in> set (correctTeamIds r)) (results game). points r) =
             (\<Sum>r\<leftarrow>results game. points r * int (count_list (correctTeamIds r) t))"
  proof -
    have "(\<Sum>r\<leftarrow>results game. points r * int (count_list (correctTeamIds r) t)) =
          (\<Sum>r\<leftarrow>results game. if t \<in> set (correctTeamIds r) then points r else 0)"
      using led by (intro arg_cong [where f = sum_list] map_cong) (auto simp add: count_list_once)
    also have "\<dots> = (\<Sum>r\<leftarrow>filter (\<lambda>r. t \<in> set (correctTeamIds r)) (results game). points r)"
      by (simp add: sum_list_map_filter')
    finally show ?thesis by simp
  qed
  finally have "(\<Sum>sId\<leftarrow>?I. setScore game t sId) =
      (\<Sum>r\<leftarrow>results game. points r * int (count_list (correctTeamIds r) t)) +
      (\<Sum>a\<leftarrow>filter (\<lambda>a. adjTeamId a = t) ?adjs. adjPoints a)" .
  with part show ?thesis
    by (simp add: map_of_calculateGameScores summaryRow_total)
qed

text \<open>
  The proviso on \<^verbatim>\<open>correctTeamIds\<close> is needed for a game value whose ledger was not written
  by \<^verbatim>\<open>handleNext\<close>: the total credits each occurrence of a team, the table one per entry.
\<close>

lemma duplicate_credit_example:
  "map_of (calculateGameScores doubleCreditGame) ''A'' = Some 6
   \<and> summaryRow doubleCreditGame ''A'' = ([3, 0, 0, 0], 3)"
  by code_simp

theorem C2_witness:
  "''A'' \<in> set (participatingTeamIds bonusGame)
   \<and> map_of (calculateGameScores bonusGame) ''A'' = Some (snd (summaryRow bonusGame ''A''))
   \<and> summaryRow bonusGame ''A'' = ([1, 2, 0, 0, 5], 8)"
proof -
  have part: "''A'' \<in> set (participatingTeamIds bonusGame)"
    by (simp add: bonusGame_def)
  have led: "\<forall>r \<in> set (results bonusGame). ''A'' \<in> set (correctTeamIds r) \<longrightarrow>
               count_list (correctTeamIds r) ''A'' \<le> 1 \<and>
               0 \<le> setId r \<and> setId r < SETS_PER_GAME + (if hasBonusRound bonusGame then 1 else 0)"
    by (simp add: bonusGame_def SETS_PER_GAME_def)
  have adj: "\<forall>a \<in> set (case manualAdjustments bonusGame of None \<Rightarrow> [] | Some adjs \<Rightarrow> adjs).
               adjTeamId a = ''A'' \<longrightarrow>
               0 \<le> adjSetId a \<and> adjSetId a < SETS_PER_GAME + (if hasBonusRound bonusGame then 1 else 0)"
    by (simp add: bonusGame_def SETS_PER_GAME_def)
  have row: "summaryRow bonusGame ''A'' = ([1, 2, 0, 0, 5], 8)"
    by code_simp
  from C2_additivity [OF part led adj] part row show ?thesis
    by blast
qed

text \<open>
  C2 without the proviso fails: once the bonus round is switched off, the entries and
  adjustments of set 4 still count in the total but set 4 is not displayed.
\<close>

theorem C2_counterexample:
  "''A'' \<in> set (participatingTeamIds bonusOffGame)
   \<and> map_of (calculateGameScores bonusOffGame) ''A'' = Some 8
   \<and> summaryRow bonusOffGame ''A'' = ([1, 2, 0, 0], 3)
   \<and> map_of (calculateGameScores bonusOffGame) ''A'' \<noteq> Some (snd (summaryRow bonusOffGame ''A''))"
proof -
  have "''A'' \<in> set (participatingTeamIds bonusOffGame)"
    by (simp add: bonusOffGame_def bonusGame_def)
  moreover have s: "map_of (calculateGameScores bonusOffGame) ''A'' = Some 8"
    by code_simp
  moreover have r: "summaryRow bonusOffGame ''A'' = ([1, 2, 0, 0], 3)"
    by code_simp
  ultimately show ?thesis by simp
qed


section \<open>Season standings\<close>

lemma award_fields:
  "teamId (award scores s e) = teamId e"
  "teamName (award scores s e) = teamName e"
  "gamesPlayed (award scores s e) = gamesPlayed e + 1"
  "royaltyPoints (award scores s e) =
     royaltyPoints e + 1 +
       (if teamRank scores s = 1 then 10 else if teamRank scores s = 2 then 5
        else if teamRank scores s = 3 then 3 else 0)"
  "wins (award scores s e) = wins e + (if teamRank scores s = 1 then 1 else 0)"
  by (simp_all add: award_def Let_def)

lemma map_of_applyTeam:
  "map_of (applyTeam scores sm (k, s)) t =
     (if t = k then map_option (award scores s) (map_of sm t) else map_of sm t)"
  by (auto simp add: applyTeam_def update_conv' split: option.splits)

lemma keys_applyTeam: "map fst (applyTeam scores sm en) = map fst sm"
proof (cases en)
  case (Pair k s)
  show ?thesis
  proof (cases "map_of sm k")
    case None
    with Pair show ?thesis by (simp add: applyTeam_def)
  next
    case (Some e)
    then have "k \<in> fst ` set sm" by (force dest: map_of_SomeD)
    with Some Pair show ?thesis by (simp add: applyTeam_def update_keys)
  qed
qed

lemma applyTeam_skip: "map_of sm k = None \<Longrightarrow> applyTeam scores sm (k, s) = sm"
  by (simp add: applyTeam_def)

lemma map_of_applyTeams:
  "distinct (map fst xs) \<Longrightarrow>
   map_of (foldl (applyTeam scores) sm xs) t =
     (case map_of xs t of
        None \<Rightarrow> map_of sm t
      | Some s \<Rightarrow> map_option (award scores s) (map_of sm t))"
proof (induction xs arbitrary: sm)
  case Nil
  then show ?case by simp
next
  case (Cons x xs)
  obtain k s where x: "x = (k, s)" by (cases x)
  from Cons.prems x have nk: "map_of xs k = None" and d: "distinct (map fst xs)"
    by (simp_all add: map_of_eq_None_iff)
  show ?case
    using nk by (auto simp add: x Cons.IH [OF d] map_of_applyTeam split: option.splits)
qed

lemma keys_applyTeams: "map fst (foldl (applyTeam scores) sm xs) = map fst sm"
  by (induction xs arbitrary: sm) (simp_all add: keys_applyTeam)

lemma map_of_sortDescBy:
  assumes "distinct (map fst xs)"
  shows "distinct (map fst (sortDescBy f xs))" and "map_of (sortDescBy f xs) = map_of xs"
proof -
  from assms show d: "distinct (map fst (sortDescBy f xs))"
    by (simp add: sortDescBy_def distinct_map)
  show "map_of (sortDescBy f xs) = map_of xs"
    using d assms by (simp add: map_of_inject_set sortDescBy_def)
qed

lemma map_of_applyGame:
  "map_of (applyGame sm game) t =
     (case map_of (calculateGameScores game) t of
        None \<Rightarrow> map_of sm t
      | Some s \<Rightarrow> map_option (award (calculateGameScores game) s) (map_of sm t))"
proof (cases "calculateGameScores game = []")
  case True
  then show ?thesis by (simp add: applyGame_def Let_def sortDescBy_def)
next
  case False
  then have "sortDescBy snd (calculateGameScores game) \<noteq> []"
    by (metis length_sort sortDescBy_def length_0_conv)
  then show ?thesis
    using map_of_sortDescBy [OF distinct_calculateGameScores, of snd game]
    by (simp add: applyGame_def Let_def map_of_applyTeams)
qed

lemma keys_applyGame: "map fst (applyGame sm game) = map fst sm"
  by (simp add: applyGame_def Let_def keys_applyTeams)

lemma keys_applyGames: "map fst (foldl applyGame sm gs) = map fst sm"
  by (induction gs arbitrary: sm) (simp_all add: keys_applyGame)

lemma map_of_applyGames_absent:
  "\<forall>g \<in> set gs. t \<notin> set (participatingTeamIds g) \<Longrightarrow>
   map_of (foldl applyGame sm gs) t = map_of sm t"
  by (induction gs arbitrary: sm) (simp_all add: map_of_applyGame map_of_calculateGameScores)

lemma applyGame_teamId:
  assumes "\<forall>k e. map_of sm k = Some e \<longrightarrow> teamId e = k"
  shows "\<forall>k e. map_of (applyGame sm game) k = Some e \<longrightarrow> teamId e = k"
  using assms by (auto simp add: map_of_applyGame award_fields split: option.splits)

lemma applyGames_teamId:
  "\<forall>k e. map_of sm k = Some e \<longrightarrow> teamId e = k \<Longrightarrow>
   \<forall>k e. map_of (foldl applyGame sm gs) k = Some e \<longrightarrow> teamId e = k"
proof (induction gs arbitrary: sm)
  case Nil
  then show ?case by simp
next
  case (Cons g gs)
  from applyGame_teamId [OF Cons.prems] have "\<forall>k e. map_of (applyGame sm g) k = Some e \<longrightarrow> teamId e = k" .
  from Cons.IH [OF this] show ?case by simp
qed

lemma fold_update_inv:
  assumes "map_of (foldl (\<lambda>m x. AList.update (kf x) (vf x) m) m xs) k = Some v"
    and "\<And>k v. map_of m k = Some v \<Longrightarrow> Q k v"
    and "\<And>x. x \<in> set xs \<Longrightarrow> Q (kf x) (vf x)"
  shows "Q k v"
  using assms
proof (induction xs arbitrary: m)
  case Nil
  then show ?case by simp
next
  case (Cons x xs)
  show ?case
  proof (rule Cons.IH)
    show "map_of (foldl (\<lambda>m x. AList.update (kf x) (vf x) m) (AList.update (kf x) (vf x) m) xs) k = Some v"
      using Cons.prems(1) by simp
  next
    fix k' v'
    assume "map_of (AList.update (kf x) (vf x) m) k' = Some v'"
    then show "Q k' v'"
      using Cons.prems(2) [of k' v'] Cons.prems(3) [of x]
      by (cases "k' = kf x") (simp_all add: update_conv')
  next
    fix y
    assume "y \<in> set xs"
    then show "Q (kf y) (vf y)"
      using Cons.prems(3) by simp
  qed
qed

lemma fold_update_keys:
  "fst ` set (foldl (\<lambda>m x. AList.update (kf x) (vf x) m) m xs) = fst ` set m \<union> kf ` set xs"
proof (induction xs arbitrary: m)
  case Nil
  then show ?case by simp
next
  case (Cons x xs)
  have "fst ` set (AList.update (kf x) (vf x) m) = insert (kf x) (fst ` set m)"
    by (simp add: dom_update)
  then show ?case
    by (simp add: Cons.IH)
qed

lemma fold_update_distinct:
  "distinct (map fst m) \<Longrightarrow>
   distinct (map fst (foldl (\<lambda>m x. AList.update (kf x) (vf x) m) m xs))"
proof (induction xs arbitrary: m)
  case Nil
  then show ?case by simp
next
  case (Cons x xs)
  from Cons.prems have "distinct (map fst (AList.update (kf x) (vf x) m))"
    by (rule distinct_update)
  from Cons.IH [OF this] show ?case by simp
qed

lemma initStandings_zero:
  assumes "map_of (initStandings teams) k = Some e"
  shows "teamId e = k \<and> royaltyPoints e = 0 \<and> gamesPlayed e = 0 \<and> wins e = 0"
proof (rule fold_update_inv [where kf = team_id and m = "[]" and xs = teams and k = k and v = e
      and vf = "\<lambda>team. \<lparr>teamId = team_id team, teamName = team_name team,
                 royaltyPoints = 0, gamesPlayed = 0, wins = 0\<rparr>"])
  show "map_of (foldl (\<lambda>m x. AList.update (team_id x)
          \<lparr>teamId = team_id x, teamName = team_name x,
           royaltyPoints = 0, gamesPlayed = 0, wins = 0\<rparr> m) [] teams) k = Some e"
    using assms by (simp only: initStandings_def)
qed simp_all

lemma initStandings_keys: "fst ` set (initStandings teams) = team_id ` set teams"
  unfolding initStandings_def by (simp only: fold_update_keys) simp

lemma initStandings_distinct: "distinct (map fst (initStandings teams))"
  unfolding initStandings_def by (rule fold_update_distinct) simp

lemma standings_teamIds:
  "map teamId (map snd (foldl applyGame (initStandings teams) gs)) = map fst (initStandings teams)"
proof -
  let ?fm = "foldl applyGame (initStandings teams) gs"
  have d: "distinct (map fst ?fm)"
    by (simp add: keys_applyGames initStandings_distinct)
  have inv: "\<forall>k e. map_of ?fm k = Some e \<longrightarrow> teamId e = k"
    by (rule applyGames_teamId) (simp add: initStandings_zero)
  have "map (teamId \<circ> snd) ?fm = map fst ?fm"
  proof (rule map_cong [OF refl])
    fix p assume "p \<in> set ?fm"
    then have "map_of ?fm (fst p) = Some (snd p)"
      using d map_of_is_SomeI [of ?fm "fst p" "snd p"] by simp
    with inv show "(teamId \<circ> snd) p = fst p" by simp
  qed
  then show ?thesis by (simp add: keys_applyGames)
qed

lemma distinct_map_sort_key: "distinct (map g (sort_key f xs)) = distinct (map g xs)"
  by (simp add: distinct_map)

lemma standings_distinct:
  "distinct (map teamId (calculateSeasonStandings sId games teams))"
proof -
  have "distinct (map teamId (map snd (foldl applyGame (initStandings teams) (seasonGames sId games))))"
    by (simp only: standings_teamIds initStandings_distinct)
  then show ?thesis
    unfolding calculateSeasonStandings_def Let_def sortDescBy_def
    by (simp only: distinct_map_sort_key)
qed

lemma standings_set:
  "set (map teamId (calculateSeasonStandings sId games teams)) = team_id ` set teams"
proof -
  have "set (map teamId (calculateSeasonStandings sId games teams)) =
        set (map teamId (map snd (foldl applyGame (initStandings teams) (seasonGames sId games))))"
    by (simp add: calculateSeasonStandings_def Let_def sortDescBy_def image_image)
  then show ?thesis
    by (simp add: standings_teamIds initStandings_keys del: map_map)
qed

lemma standings_length:
  assumes "distinct (map team_id teams)"
  shows "length (calculateSeasonStandings sId games teams) = length teams"
proof -
  have "length (calculateSeasonStandings sId games teams) = length (map fst (initStandings teams))"
    using keys_applyGames [of "initStandings teams" "seasonGames sId games", THEN arg_cong, of length]
    by (simp add: calculateSeasonStandings_def Let_def sortDescBy_def)
  also have "\<dots> = card (set (map fst (initStandings teams)))"
    by (simp only: distinct_card [OF initStandings_distinct])
  also have "\<dots> = card (set (map team_id teams))"
    by (simp add: initStandings_keys)
  also have "\<dots> = length teams"
    using distinct_card [OF assms] by simp
  finally show ?thesis .
qed

lemma standings_zero:
  assumes tm: "tm \<in> set teams"
    and absent: "\<forall>g \<in> set (seasonGames sId games). team_id tm \<notin> set (participatingTeamIds g)"
  shows "\<exists>e \<in> set (calculateSeasonStandings sId games teams).
           teamId e = team_id tm \<and> royaltyPoints e = 0 \<and> gamesPlayed e = 0 \<and> wins e = 0"
proof -
  let ?fm = "foldl applyGame (initStandings teams) (seasonGames sId games)"
  from tm have "team_id tm \<in> fst ` set (initStandings teams)"
    by (simp add: initStandings_keys)
  then obtain e where "(team_id tm, e) \<in> set (initStandings teams)"
    by auto
  with initStandings_distinct have e: "map_of (initStandings teams) (team_id tm) = Some e"
    by (rule map_of_is_SomeI)
  with map_of_applyGames_absent [OF absent] have "map_of ?fm (team_id tm) = Some e"
    by simp
  then have "e \<in> set (map snd ?fm)"
    by (force dest: map_of_SomeD)
  then have "e \<in> set (calculateSeasonStandings sId games teams)"
    by (simp add: calculateSeasonStandings_def Let_def sortDescBy_def)
  with initStandings_zero [OF e] show ?thesis by blast
qed

lemma award_dense:
  assumes "map_of scores t = Some s"
  shows "award scores s e =
     (let rank = 1 + int (card {v \<in> snd ` set scores. s < v}) in
      e\<lparr>gamesPlayed := gamesPlayed e + 1,
        royaltyPoints := royaltyPoints e + 1 +
          (if rank = 1 then 10 else if rank = 2 then 5 else if rank = 3 then 3 else 0),
        wins := wins e + (if rank = 1 then 1 else 0)\<rparr>)"
proof -
  from assms have "s \<in> snd ` set scores" by (force dest: map_of_SomeD)
  then have "teamRank scores s = 1 + int (card {v \<in> snd ` set scores. s < v})"
    by (rule teamRank_dense)
  then show ?thesis
    by (simp add: award_def Let_def)
qed

lemma tieGame_scores: "calculateGameScores tieGame = [(''A'', 50), (''B'', 50), (''C'', 30)]"
  by code_simp

lemma guestGame_scores: "calculateGameScores guestGame = [(''X'', 2), (''A'', 1)]"
  by code_simp

lemma roster_init:
  "initStandings roster =
     [(''A'', \<lparr>teamId = ''A'', teamName = ''Alpha'', royaltyPoints = 0, gamesPlayed = 0, wins = 0\<rparr>),
      (''B'', \<lparr>teamId = ''B'', teamName = ''Bravo'', royaltyPoints = 0, gamesPlayed = 0, wins = 0\<rparr>),
      (''C'', \<lparr>teamId = ''C'', teamName = ''Charlie'', royaltyPoints = 0, gamesPlayed = 0, wins = 0\<rparr>),
      (''D'', \<lparr>teamId = ''D'', teamName = ''Delta'', royaltyPoints = 0, gamesPlayed = 0, wins = 0\<rparr>)]"
  by code_simp

lemma tieGame_sorted:
  "sortDescBy snd [(''A'', 50), (''B'', 50), (''C'', 30::int)] = [(''A'', 50), (''B'', 50), (''C'', 30)]"
  by code_simp

lemma guestGame_sorted:
  "sortDescBy snd [(''X'', 2), (''A'', 1::int)] = [(''X'', 2), (''A'', 1)]"
  by code_simp

lemma tieGame_ranks:
  "teamRank [(''A'', 50), (''B'', 50), (''C'', 30)] 50 = 1"
  "teamRank [(''A'', 50), (''B'', 50), (''C'', 30)] 30 = 2"
  by code_simp+

lemma guestGame_ranks:
  "teamRank [(''X'', 2), (''A'', 1)] 2 = 1"
  "teamRank [(''X'', 2), (''A'', 1)] 1 = 2"
  by code_simp+

lemma tieGame_applied:
  "applyGame (initStandings roster) tieGame =
     [(''A'', \<lparr>teamId = ''A'', teamName = ''Alpha'', royaltyPoints = 11, gamesPlayed = 1, wins = 1\<rparr>),
      (''B'', \<lparr>teamId = ''B'', teamName = ''Bravo'', royaltyPoints = 11, gamesPlayed = 1, wins = 1\<rparr>),
      (''C'', \<lparr>teamId = ''C'', teamName = ''Charlie'', royaltyPoints = 6, gamesPlayed = 1, wins = 0\<rparr>),
      (''D'', \<lparr>teamId = ''D'', teamName = ''Delta'', royaltyPoints = 0, gamesPlayed = 0, wins = 0\<rparr>)]"
  by (simp add: applyGame_def Let_def tieGame_scores roster_init tieGame_sorted tieGame_ranks
        applyTeam_def award_def)

lemma guestGame_applied:
  "applyGame (applyGame (initStandings roster) tieGame) guestGame =
     [(''A'', \<lparr>teamId = ''A'', teamName = ''Alpha'', royaltyPoints = 17, gamesPlayed = 2, wins = 1\<rparr>),
      (''B'', \<lparr>teamId = ''B'', teamName = ''Bravo'', royaltyPoints = 11, gamesPlayed = 1, wins = 1\<rparr>),
      (''C'', \<lparr>teamId = ''C'', teamName = ''Charlie'', royaltyPoints = 6, gamesPlayed = 1, wins = 0\<rparr>),
      (''D'', \<lparr>teamId = ''D'', teamName = ''Delta'', royaltyPoints = 0, gamesPlayed = 0, wins = 0\<rparr>)]"
  by (simp add: applyGame_def [of _ guestGame] Let_def guestGame_scores tieGame_applied
        guestGame_sorted guestGame_ranks applyTeam_def award_def)

lemma season_games_example:
  "seasonGames ''s0'' [tieGame] = [tieGame]"
  "seasonGames ''s0'' [tieGame, guestGame] = [tieGame, guestGame]"
  "seasonGames ''s0'' [guestGame] = [guestGame]"
  "seasonGames ''s0'' [soloGame] = [soloGame]"
  by (simp_all add: seasonGames_def tieGame_def guestGame_def soloGame_def newGame_def)

lemma soloGame_scores: "calculateGameScores soloGame = [(''A'', 1)]"
  by code_simp

lemma soloGame_sorted: "sortDescBy snd [(''A'', 1::int)] = [(''A'', 1)]"
  by code_simp

lemma soloGame_ranks: "teamRank [(''A'', 1)] 1 = 1"
  by code_simp

lemma guestGame_alone_applied:
  "applyGame (initStandings roster) guestGame =
     [(''A'', \<lparr>teamId = ''A'', teamName = ''Alpha'', royaltyPoints = 6, gamesPlayed = 1, wins = 0\<rparr>),
      (''B'', \<lparr>teamId = ''B'', teamName = ''Bravo'', royaltyPoints = 0, gamesPlayed = 0, wins = 0\<rparr>),
      (''C'', \<lparr>teamId = ''C'', teamName = ''Charlie'', royaltyPoints = 0, gamesPlayed = 0, wins = 0\<rparr>),
      (''D'', \<lparr>teamId = ''D'', teamName = ''Delta'', royaltyPoints = 0, gamesPlayed = 0, wins = 0\<rparr>)]"
  by (simp add: applyGame_def Let_def guestGame_scores roster_init guestGame_sorted guestGame_ranks
        applyTeam_def award_def)

lemma soloGame_applied:
  "applyGame (initStandings roster) soloGame =
     [(''A'', \<lparr>teamId = ''A'', teamName = ''Alpha'', royaltyPoints = 11, gamesPlayed = 1, wins = 1\<rparr>),
      (''B'', \<lparr>teamId = ''B'', teamName = ''Bravo'', royaltyPoints = 0, gamesPlayed = 0, wins = 0\<rparr>),
      (''C'', \<lparr>teamId = ''C'', teamName = ''Charlie'', royaltyPoints = 0, gamesPlayed = 0, wins = 0\<rparr>),
      (''D'', \<lparr>teamId = ''D'', teamName = ''Delta'', royaltyPoints = 0, gamesPlayed = 0, wins = 0\<rparr>)]"
  by (simp add: applyGame_def Let_def soloGame_scores roster_init soloGame_sorted soloGame_ranks
        applyTeam_def award_def)

lemma unknown_team_absent_in_loop:
  assumes "k \<notin> team_id ` set teams"
  shows "map_of (foldl (applyTeam scores) (foldl applyGame (initStandings teams) gs) ens) k = None"
proof -
  have "map fst (foldl (applyTeam scores) (foldl applyGame (initStandings teams) gs) ens) =
        map fst (initStandings teams)"
    by (simp only: keys_applyTeams keys_applyGames)
  then have "fst ` set (foldl (applyTeam scores) (foldl applyGame (initStandings teams) gs) ens) =
        fst ` set (initStandings teams)"
    by (metis set_map)
  with assms show ?thesis
    by (simp add: map_of_eq_None_iff initStandings_keys)
qed

text \<open>
  C3. One eligible game changes the standings entry of a team of the roster as follows. If
  the team is in the game's score mapping (it participated), \<^verbatim>\<open>gamesPlayed\<close> grows by 1,
  \<^verbatim>\<open>points\<close> by 1 plus the bonus of its dense rank over the mapping (10 at rank 1, 5 at
  rank 2, 3 at rank 3, 0 from rank 4 on) and \<^verbatim>\<open>wins\<close> by 1 at rank 1; if it is not in the
  mapping, the entry is untouched. \<^verbatim>\<open>calculateSeasonStandings\<close> applies this for each
  eligible game in turn. For one archived Regular game with scores {A:50, B:50, C:30},
  A and B gain 11 points and 1 win each, C gains 6 points and no win.
\<close>

theorem C3_game_award:
  "map_of (applyGame standingsMap game) t =
     (case map_of standingsMap t of
        None \<Rightarrow> None
      | Some e \<Rightarrow>
          (case map_of (calculateGameScores game) t of
             None \<Rightarrow> Some e
           | Some s \<Rightarrow>
               (let rank = 1 + int (card {v \<in> snd ` set (calculateGameScores game). s < v}) in
                Some (e\<lparr>gamesPlayed := gamesPlayed e + 1,
                        royaltyPoints := royaltyPoints e + 1 +
                          (if rank = 1 then 10 else if rank = 2 then 5
                           else if rank = 3 then 3 else 0),
                        wins := wins e + (if rank = 1 then 1 else 0)\<rparr>))))
   \<and> (map_of (calculateGameScores game) t \<noteq> None \<longleftrightarrow> t \<in> set (participatingTeamIds game))
   \<and> calculateSeasonStandings sId games teams =
       sortDescBy royaltyPoints
         (map snd (foldl applyGame (initStandings teams) (seasonGames sId games)))
   \<and> calculateGameScores tieGame = [(''A'', 50), (''B'', 50), (''C'', 30)]
   \<and> calculateSeasonStandings ''s0'' [tieGame] roster =
        [\<lparr>teamId = ''A'', teamName = ''Alpha'', royaltyPoints = 11, gamesPlayed = 1, wins = 1\<rparr>,
         \<lparr>teamId = ''B'', teamName = ''Bravo'', royaltyPoints = 11, gamesPlayed = 1, wins = 1\<rparr>,
         \<lparr>teamId = ''C'', teamName = ''Charlie'', royaltyPoints = 6, gamesPlayed = 1, wins = 0\<rparr>,
         \<lparr>teamId = ''D'', teamName = ''Delta'', royaltyPoints = 0, gamesPlayed = 0, wins = 0\<rparr>]"
proof (intro conjI)
  show "map_of (applyGame standingsMap game) t =
     (case map_of standingsMap t of
        None \<Rightarrow> None
      | Some e \<Rightarrow>
          (case map_of (calculateGameScores game) t of
             None \<Rightarrow> Some e
           | Some s \<Rightarrow>
               (let rank = 1 + int (card {v \<in> snd ` set (calculateGameScores game). s < v}) in
                Some (e\<lparr>gamesPlayed := gamesPlayed e + 1,
                        royaltyPoints := royaltyPoints e + 1 +
                          (if rank = 1 then 10 else if rank = 2 then 5
                           else if rank = 3 then 3 else 0),
                        wins := wins e + (if rank = 1 then 1 else 0)\<rparr>))))"
  proof (cases "map_of (calculateGameScores game) t")
    case None
    then show ?thesis
      by (simp add: map_of_applyGame split: option.splits)
  next
    case (Some s)
    show ?thesis
    proof (cases "map_of standingsMap t")
      case None
      with Some show ?thesis by (simp add: map_of_applyGame)
    next
      case (Some e)
      with \<open>map_of (calculateGameScores game) t = Some s\<close> show ?thesis
        by (simp add: map_of_applyGame award_dense [of "calculateGameScores game" t s e] Let_def)
    qed
  qed
next
  show "map_of (calculateGameScores game) t \<noteq> None \<longleftrightarrow> t \<in> set (participatingTeamIds game)"
    by (simp add: map_of_calculateGameScores)
next
  show "calculateSeasonStandings sId games teams =
       sortDescBy royaltyPoints
         (map snd (foldl applyGame (initStandings teams) (seasonGames sId games)))"
    by (simp add: calculateSeasonStandings_def)
next
  show "calculateGameScores tieGame = [(''A'', 50), (''B'', 50), (''C'', 30)]"
    by (rule tieGame_scores)
next
  show "calculateSeasonStandings ''s0'' [tieGame] roster =
        [\<lparr>teamId = ''A'', teamName = ''Alpha'', royaltyPoints = 11, gamesPlayed = 1, wins = 1\<rparr>,
         \<lparr>teamId = ''B'', teamName = ''Bravo'', royaltyPoints = 11, gamesPlayed = 1, wins = 1\<rparr>,
         \<lparr>teamId = ''C'', teamName = ''Charlie'', royaltyPoints = 6, gamesPlayed = 1, wins = 0\<rparr>,
         \<lparr>teamId = ''D'', teamName = ''Delta'', royaltyPoints = 0, gamesPlayed = 0, wins = 0\<rparr>]"
    by (simp add: calculateSeasonStandings_def Let_def season_games_example tieGame_applied
          sortDescBy_def)
qed

theorem C3_witness:
  "map_of (initStandings roster) ''C'' =
     Some \<lparr>teamId = ''C'', teamName = ''Charlie'', royaltyPoints = 0, gamesPlayed = 0, wins = 0\<rparr>
   \<and> map_of (calculateGameScores tieGame) ''C'' = Some 30
   \<and> map_of (applyGame (initStandings roster) tieGame) ''C'' =
       Some \<lparr>teamId = ''C'', teamName = ''Charlie'', royaltyPoints = 6, gamesPlayed = 1, wins = 0\<rparr>
   \<and> map_of (applyGame (initStandings roster) tieGame) ''D'' = map_of (initStandings roster) ''D''
   \<and> (map_of (calculateGameScores tieGame) ''D'' \<noteq> None \<longleftrightarrow>
        ''D'' \<in> set (participatingTeamIds tieGame))"
proof -
  have "map_of (initStandings roster) ''C'' =
     Some \<lparr>teamId = ''C'', teamName = ''Charlie'', royaltyPoints = 0, gamesPlayed = 0, wins = 0\<rparr>"
    by (simp add: roster_init)
  moreover have "map_of (calculateGameScores tieGame) ''C'' = Some 30"
    by (simp add: tieGame_scores)
  moreover have "map_of (applyGame (initStandings roster) tieGame) ''C'' =
       Some \<lparr>teamId = ''C'', teamName = ''Charlie'', royaltyPoints = 6, gamesPlayed = 1, wins = 0\<rparr>"
    by (simp add: tieGame_applied)
  moreover have "map_of (applyGame (initStandings roster) tieGame) ''D'' =
      map_of (initStandings roster) ''D''"
    by (simp only: tieGame_applied) (simp add: roster_init)
  moreover have "map_of (calculateGameScores tieGame) ''D'' \<noteq> None \<longleftrightarrow>
        ''D'' \<in> set (participatingTeamIds tieGame)"
    using C3_game_award [of "initStandings roster" tieGame "''D''" "''s0''" "[tieGame]" roster]
    by blast
  ultimately show ?thesis by blast
qed

text \<open>
  C10, as the code has it. \<^verbatim>\<open>calculateSeasonStandings\<close> returns one entry per team
  identifier of the roster and no other entry (as many entries as teams when the
  identifiers of the roster are distinct). A team of the roster that is in no eligible
  game's participating teams appears with points 0, gamesPlayed 0 and wins 0. A team
  identifier that is not in the roster has no entry in any standings map the loop reaches;
  its step of the loop returns the map unchanged, and no step changes the keys of the map.
  Its score stays in the game's score mapping (the mapping has every participating team),
  and each roster team of the game is awarded by its rank over that whole mapping.
\<close>

theorem C10_standings_roster:
  "distinct (map teamId (calculateSeasonStandings sId games teams))
   \<and> set (map teamId (calculateSeasonStandings sId games teams)) = team_id ` set teams
   \<and> (distinct (map team_id teams) \<longrightarrow>
        length (calculateSeasonStandings sId games teams) = length teams)
   \<and> (tm \<in> set teams \<and>
        (\<forall>g \<in> set (seasonGames sId games). team_id tm \<notin> set (participatingTeamIds g)) \<longrightarrow>
        (\<exists>e \<in> set (calculateSeasonStandings sId games teams).
           teamId e = team_id tm \<and> royaltyPoints e = 0 \<and> gamesPlayed e = 0 \<and> wins e = 0))
   \<and> (k \<notin> team_id ` set teams \<longrightarrow>
        map_of (foldl (applyTeam scores) (foldl applyGame (initStandings teams) gs) ens) k = None
        \<and> applyTeam scores
            (foldl (applyTeam scores) (foldl applyGame (initStandings teams) gs) ens) (k, s) =
          foldl (applyTeam scores) (foldl applyGame (initStandings teams) gs) ens
        \<and> (\<forall>e \<in> set (calculateSeasonStandings sId games teams). teamId e \<noteq> k))
   \<and> (map_of standingsMap k = None \<longrightarrow> applyTeam scores standingsMap (k, s) = standingsMap)
   \<and> map fst (applyTeam scores standingsMap en) = map fst standingsMap
   \<and> (map_of (calculateGameScores game) k \<noteq> None \<longleftrightarrow> k \<in> set (participatingTeamIds game))
   \<and> map_of (applyGame standingsMap game) t =
        (case map_of (calculateGameScores game) t of
           None \<Rightarrow> map_of standingsMap t
         | Some s' \<Rightarrow> map_option (award (calculateGameScores game) s') (map_of standingsMap t))
   \<and> calculateSeasonStandings ''s0'' [tieGame, guestGame] roster =
        [\<lparr>teamId = ''A'', teamName = ''Alpha'', royaltyPoints = 17, gamesPlayed = 2, wins = 1\<rparr>,
         \<lparr>teamId = ''B'', teamName = ''Bravo'', royaltyPoints = 11, gamesPlayed = 1, wins = 1\<rparr>,
         \<lparr>teamId = ''C'', teamName = ''Charlie'', royaltyPoints = 6, gamesPlayed = 1, wins = 0\<rparr>,
         \<lparr>teamId = ''D'', teamName = ''Delta'', royaltyPoints = 0, gamesPlayed = 0, wins = 0\<rparr>]"
proof (intro conjI impI)
  show "distinct (map teamId (calculateSeasonStandings sId games teams))"
    by (rule standings_distinct)
next
  show "set (map teamId (calculateSeasonStandings sId games teams)) = team_id ` set teams"
    by (rule standings_set)
next
  assume "distinct (map team_id teams)"
  then show "length (calculateSeasonStandings sId games teams) = length teams"
    by (rule standings_length)
next
  assume "tm \<in> set teams \<and>
      (\<forall>g \<in> set (seasonGames sId games). team_id tm \<notin> set (participatingTeamIds g))"
  then show "\<exists>e \<in> set (calculateSeasonStandings sId games teams).
      teamId e = team_id tm \<and> royaltyPoints e = 0 \<and> gamesPlayed e = 0 \<and> wins e = 0"
    by (intro standings_zero) simp_all
next
  assume "k \<notin> team_id ` set teams"
  then show "map_of (foldl (applyTeam scores) (foldl applyGame (initStandings teams) gs) ens) k = None"
    by (rule unknown_team_absent_in_loop)
next
  assume "k \<notin> team_id ` set teams"
  then have "map_of (foldl (applyTeam scores) (foldl applyGame (initStandings teams) gs) ens) k = None"
    by (rule unknown_team_absent_in_loop)
  then show "applyTeam scores
      (foldl (applyTeam scores) (foldl applyGame (initStandings teams) gs) ens) (k, s) =
      foldl (applyTeam scores) (foldl applyGame (initStandings teams) gs) ens"
    by (rule applyTeam_skip)
next
  assume k: "k \<notin> team_id ` set teams"
  show "\<forall>e \<in> set (calculateSeasonStandings sId games teams). teamId e \<noteq> k"
  proof
    fix e assume "e \<in> set (calculateSeasonStandings sId games teams)"
    then have "teamId e \<in> set (map teamId (calculateSeasonStandings sId games teams))"
      by simp
    with k show "teamId e \<noteq> k"
      by (simp only: standings_set) blast
  qed
next
  assume "map_of standingsMap k = None"
  then show "applyTeam scores standingsMap (k, s) = standingsMap"
    by (rule applyTeam_skip)
next
  show "map fst (applyTeam scores standingsMap en) = map fst standingsMap"
    by (rule keys_applyTeam)
next
  show "map_of (calculateGameScores game) k \<noteq> None \<longleftrightarrow> k \<in> set (participatingTeamIds game)"
    by (simp add: map_of_calculateGameScores)
next
  show "map_of (applyGame standingsMap game) t =
        (case map_of (calculateGameScores game) t of
           None \<Rightarrow> map_of standingsMap t
         | Some s' \<Rightarrow> map_option (award (calculateGameScores game) s') (map_of standingsMap t))"
    by (rule map_of_applyGame)
next
  show "calculateSeasonStandings ''s0'' [tieGame, guestGame] roster =
        [\<lparr>teamId = ''A'', teamName = ''Alpha'', royaltyPoints = 17, gamesPlayed = 2, wins = 1\<rparr>,
         \<lparr>teamId = ''B'', teamName = ''Bravo'', royaltyPoints = 11, gamesPlayed = 1, wins = 1\<rparr>,
         \<lparr>teamId = ''C'', teamName = ''Charlie'', royaltyPoints = 6, gamesPlayed = 1, wins = 0\<rparr>,
         \<lparr>teamId = ''D'', teamName = ''Delta'', royaltyPoints = 0, gamesPlayed = 0, wins = 0\<rparr>]"
    by (simp add: calculateSeasonStandings_def Let_def season_games_example guestGame_applied
          sortDescBy_def)
qed

theorem C10_witness:
  "distinct (map team_id roster)
   \<and> length (calculateSeasonStandings ''s0'' [tieGame, guestGame] roster) = length roster
   \<and> set (map teamId (calculateSeasonStandings ''s0'' [tieGame, guestGame] roster)) =
         {''A'', ''B'', ''C'', ''D''}
   \<and> ''X'' \<notin> team_id ` set roster
   \<and> ''X'' \<in> set (participatingTeamIds guestGame)
   \<and> map_of (foldl (applyTeam (calculateGameScores guestGame))
         (foldl applyGame (initStandings roster) [tieGame]) [(''A'', 1)]) ''X'' = None
   \<and> applyTeam (calculateGameScores guestGame)
         (foldl (applyTeam (calculateGameScores guestGame))
            (foldl applyGame (initStandings roster) [tieGame]) [(''A'', 1)]) (''X'', 2) =
       foldl (applyTeam (calculateGameScores guestGame))
         (foldl applyGame (initStandings roster) [tieGame]) [(''A'', 1)]"
proof -
  have h1: "distinct (map team_id roster)"
    by (simp add: roster_def)
  have h4: "''X'' \<notin> team_id ` set roster"
    by (simp add: roster_def)
  have h5: "''X'' \<in> set (participatingTeamIds guestGame)"
    by (simp add: guestGame_def)
  have ids: "team_id ` set roster = {''A'', ''B'', ''C'', ''D''}"
    by (simp add: roster_def)
  note inst = C10_standings_roster [where sId = "''s0''" and games = "[tieGame, guestGame]"
      and teams = roster and k = "''X''" and scores = "calculateGameScores guestGame"
      and gs = "[tieGame]" and ens = "[(''A'', 1)]" and s = 2]
  have c1: "length (calculateSeasonStandings ''s0'' [tieGame, guestGame] roster) = length roster"
    by (rule inst [THEN conjunct2, THEN conjunct2, THEN conjunct1, THEN mp, OF h1])
  have "set (map teamId (calculateSeasonStandings ''s0'' [tieGame, guestGame] roster)) =
      team_id ` set roster"
    by (rule inst [THEN conjunct2, THEN conjunct1])
  then have c2: "set (map teamId (calculateSeasonStandings ''s0'' [tieGame, guestGame] roster)) =
      {''A'', ''B'', ''C'', ''D''}"
    by (simp only: ids)
  note skip = inst [THEN conjunct2, THEN conjunct2, THEN conjunct2, THEN conjunct2,
      THEN conjunct1, THEN mp, OF h4]
  have c3: "map_of (foldl (applyTeam (calculateGameScores guestGame))
         (foldl applyGame (initStandings roster) [tieGame]) [(''A'', 1)]) ''X'' = None"
    by (rule skip [THEN conjunct1])
  have c4: "applyTeam (calculateGameScores guestGame)
         (foldl (applyTeam (calculateGameScores guestGame))
            (foldl applyGame (initStandings roster) [tieGame]) [(''A'', 1)]) (''X'', 2) =
       foldl (applyTeam (calculateGameScores guestGame))
         (foldl applyGame (initStandings roster) [tieGame]) [(''A'', 1)]"
    by (rule skip [THEN conjunct2, THEN conjunct1])
  from h1 h4 h5 c1 c2 c3 c4 show ?thesis
    by (intro conjI)
qed

text \<open>
  C10 with its words "does not alter any other team's totals" fails: team X is not in the
  roster and scores 2 in the second game, team A scores 1. With X among the participating
  teams A is second and gets 6 points and no win; with X taken out of them (A's score is
  the same) A is first and gets 11 points and a win.
\<close>

theorem C10_counterexample:
  "''X'' \<notin> set (map team_id roster)
   \<and> map_of (calculateGameScores guestGame) ''X'' = Some 2
   \<and> map_of (calculateGameScores guestGame) ''A'' = Some 1
   \<and> map_of (calculateGameScores soloGame) ''X'' = None
   \<and> map_of (calculateGameScores soloGame) ''A'' = Some 1
   \<and> calculateSeasonStandings ''s0'' [guestGame] roster =
        [\<lparr>teamId = ''A'', teamName = ''Alpha'', royaltyPoints = 6, gamesPlayed = 1, wins = 0\<rparr>,
         \<lparr>teamId = ''B'', teamName = ''Bravo'', royaltyPoints = 0, gamesPlayed = 0, wins = 0\<rparr>,
         \<lparr>teamId = ''C'', teamName = ''Charlie'', royaltyPoints = 0, gamesPlayed = 0, wins = 0\<rparr>,
         \<lparr>teamId = ''D'', teamName = ''Delta'', royaltyPoints = 0, gamesPlayed = 0, wins = 0\<rparr>]
   \<and> calculateSeasonStandings ''s0'' [soloGame] roster =
        [\<lparr>teamId = ''A'', teamName = ''Alpha'', royaltyPoints = 11, gamesPlayed = 1, wins = 1\<rparr>,
         \<lparr>teamId = ''B'', teamName = ''Bravo'', royaltyPoints = 0, gamesPlayed = 0, wins = 0\<rparr>,
         \<lparr>teamId = ''C'', teamName = ''Charlie'', royaltyPoints = 0, gamesPlayed = 0, wins = 0\<rparr>,
         \<lparr>teamId = ''D'', teamName = ''Delta'', royaltyPoints = 0, gamesPlayed = 0, wins = 0\<rparr>]
   \<and> calculateSeasonStandings ''s0'' [guestGame] roster \<noteq>
       calculateSeasonStandings ''s0'' [soloGame] roster"
proof -
  have a: "''X'' \<notin> set (map team_id roster)"
    by (simp add: roster_def)
  have b: "map_of (calculateGameScores guestGame) ''X'' = Some 2"
    "map_of (calculateGameScores guestGame) ''A'' = Some 1"
    by (simp_all add: guestGame_scores)
  have c: "map_of (calculateGameScores soloGame) ''X'' = None"
    "map_of (calculateGameScores soloGame) ''A'' = Some 1"
    by (simp_all add: soloGame_scores)
  have d: "calculateSeasonStandings ''s0'' [guestGame] roster =
        [\<lparr>teamId = ''A'', teamName = ''Alpha'', royaltyPoints = 6, gamesPlayed = 1, wins = 0\<rparr>,
         \<lparr>teamId = ''B'', teamName = ''Bravo'', royaltyPoints = 0, gamesPlayed = 0, wins = 0\<rparr>,
         \<lparr>teamId = ''C'', teamName = ''Charlie'', royaltyPoints = 0, gamesPlayed = 0, wins = 0\<rparr>,
         \<lparr>teamId = ''D'', teamName = ''Delta'', royaltyPoints = 0, gamesPlayed = 0, wins = 0\<rparr>]"
    by (simp add: calculateSeasonStandings_def Let_def season_games_example
          guestGame_alone_applied sortDescBy_def)
  have e: "calculateSeasonStandings ''s0'' [soloGame] roster =
        [\<lparr>teamId = ''A'', teamName = ''Alpha'', royaltyPoints = 11, gamesPlayed = 1, wins = 1\<rparr>,
         \<lparr>teamId = ''B'', teamName = ''Bravo'', royaltyPoints = 0, gamesPlayed = 0, wins = 0\<rparr>,
         \<lparr>teamId = ''C'', teamName = ''Charlie'', royaltyPoints = 0, gamesPlayed = 0, wins = 0\<rparr>,
         \<lparr>teamId = ''D'', teamName = ''Delta'', royaltyPoints = 0, gamesPlayed = 0, wins = 0\<rparr>]"
    by (simp add: calculateSeasonStandings_def Let_def season_games_example
          soloGame_applied sortDescBy_def)
  have f: "calculateSeasonStandings ''s0'' [guestGame] roster \<noteq>
       calculateSeasonStandings ''s0'' [soloGame] roster"
    by (simp only: d e) simp
  from a b c d e f show ?thesis
    by (intro conjI)
qed

end
